theory Spec2Isabelle
  imports Main "HOL-Library.Sublist"
begin

section \<open>form2mail: a contact form relayed as two e-mails\<close>

text \<open>
  The Go program has three packages: \<open>config\<close> reads the process environment,
  \<open>email\<close> composes and sends a message over SMTP, \<open>handler\<close> serves
  \<open>/contact\<close>. Go strings are byte sequences, so they are \<^typ>\<open>string\<close> here
  (a list of 8-bit characters). What the program does to the outside (the response
  writer, the logger, the SMTP client of \<open>net/smtp\<close>) is recorded as a list of
  events in the order of the calls; what the outside answers is a parameter, the
  \<open>world\<close>.
\<close>

abbreviation nl :: char where "nl \<equiv> CHR 0x0A"
abbreviation cr :: char where "cr \<equiv> CHR 0x0D"
abbreviation tab :: char where "tab \<equiv> CHR 0x09"

subsection \<open>Package config\<close>

record Config =
  SMTPHost :: string
  SMTPPort :: string
  SMTPUser :: string
  SMTPPassword :: string
  RecipientEmail :: string
  FromEmail :: string
  ServerPort :: string
  CORSOrigin :: string

text \<open>\<open>os.Getenv\<close> is the first argument: it returns the empty string for an unset
  variable.\<close>

definition getEnv :: "(string \<Rightarrow> string) \<Rightarrow> string \<Rightarrow> string \<Rightarrow> string" where
  "getEnv os_Getenv key defaultValue =
     (let v = os_Getenv key in if v = [] then defaultValue else v)"

definition Load :: "(string \<Rightarrow> string) \<Rightarrow> Config" where
  "Load os_Getenv =
     \<lparr> SMTPHost = getEnv os_Getenv ''SMTP_HOST'' ''smtp.gmail.com'',
       SMTPPort = getEnv os_Getenv ''SMTP_PORT'' ''587'',
       SMTPUser = getEnv os_Getenv ''SMTP_USER'' [],
       SMTPPassword = getEnv os_Getenv ''SMTP_PASSWORD'' [],
       RecipientEmail = getEnv os_Getenv ''RECIPIENT_EMAIL'' [],
       FromEmail = getEnv os_Getenv ''FROM_EMAIL'' [],
       ServerPort = getEnv os_Getenv ''SERVER_PORT'' ''8080'',
       CORSOrigin = getEnv os_Getenv ''CORS_ORIGIN'' ''*'' \<rparr>"

subsection \<open>Events and the world\<close>

datatype auth = PlainAuth string string string string

datatype event =
    SetHeader string string
  | WriteHeader nat
  | HttpError string nat
  | EncodeJSON "(string \<times> string) list"
  | LogPrintf string
  | Dial string
  | Hello string
  | Extension string
  | StartTLS string
  | Auth auth
  | Mail string
  | Rcpt string
  | Data
  | WriteData string
  | CloseData
  | Quit
  | CloseClient
  | SendMail string auth string "string list" string

record request =
  Method :: string
  ContentType :: string
  Body :: string

text \<open>
  The world answers the library calls. \<open>json_Decode\<close> is
  \<open>json.NewDecoder(r.Body).Decode(&form)\<close> on a zero \<open>ContactForm\<close>: an error, or
  the value of each string field by its \<open>json\<close> tag. \<open>http_ParseForm\<close> is
  \<open>r.ParseForm()\<close>: an error, or what \<open>r.FormValue\<close> then returns for each key.
  \<open>smtp_reply\<close> is the error (if any) of an SMTP client call made after the given
  history, \<open>smtp_Extension\<close> whether the server advertises an extension.
  \<open>ContentType\<close> of a request is \<open>r.Header.Get("Content-Type")\<close>.
\<close>

record world =
  json_Decode :: "string \<Rightarrow> string + (string \<Rightarrow> string)"
  http_ParseForm :: "request \<Rightarrow> string + (string \<Rightarrow> string)"
  smtp_reply :: "event list \<Rightarrow> event \<Rightarrow> string option"
  smtp_Extension :: "event list \<Rightarrow> string \<Rightarrow> bool"

type_synonym 'a io = "event list \<Rightarrow> 'a \<times> event list"

definition smtp_call :: "world \<Rightarrow> event \<Rightarrow> string option io" where
  "smtp_call wd c tr = (smtp_reply wd tr c, tr @ [c])"

text \<open>The idiom \<open>if err = call; err != nil { return fmt.Errorf("...: %w", err) }\<close>
  followed by the rest of the function.\<close>

definition try_call :: "world \<Rightarrow> event \<Rightarrow> string \<Rightarrow> string option io \<Rightarrow> string option io" where
  "try_call wd c wrap rest tr =
     (case smtp_call wd c tr of
        (Some err, tr') \<Rightarrow> (Some (wrap @ err), tr')
      | (None, tr') \<Rightarrow> rest tr')"

subsection \<open>Package email (internal/email/sender.go)\<close>

record Sender =
  config :: Config

definition NewSender :: "Config \<Rightarrow> Sender" where
  "NewSender cfg = \<lparr> config = cfg \<rparr>"

text \<open>\<open>strings.ReplaceAll\<close> for a pattern of one byte, the only use in the source.\<close>

fun ReplaceAll :: "string \<Rightarrow> char \<Rightarrow> string \<Rightarrow> string" where
  "ReplaceAll [] old new = []"
| "ReplaceAll (c # s) old new = (if c = old then new else [c]) @ ReplaceAll s old new"

text \<open>The body of \<open>Send\<close> after \<open>defer client.Close()\<close>.\<close>

definition Send_session :: "world \<Rightarrow> Sender \<Rightarrow> string \<Rightarrow> string \<Rightarrow> string \<Rightarrow> string option io" where
  "Send_session wd s to subject body =
     try_call wd (Hello (SMTPHost (config s))) ''failed to send HELLO: '' (\<lambda>tr.
       (if smtp_Extension wd tr ''STARTTLS''
        then try_call wd (StartTLS (SMTPHost (config s))) ''failed to start TLS: ''
        else (\<lambda>rest. rest))
       (try_call wd (Auth (PlainAuth [] (SMTPUser (config s)) (SMTPPassword (config s))
                      (SMTPHost (config s)))) ''authentication failed: ''
       (try_call wd (Mail (FromEmail (config s))) ''failed to set sender: ''
       (try_call wd (Rcpt to) ''failed to set recipient: ''
       (try_call wd Data ''failed to open data writer: ''
       (try_call wd (WriteData
           (''From: '' @ FromEmail (config s) @ [cr, nl] @
            ''To: '' @ to @ [cr, nl] @
            ''Subject: '' @ subject @ [cr, nl] @
            ''MIME-Version: 1.0'' @ [cr, nl] @
            ''Content-Type: text/html; charset=UTF-8'' @ [cr, nl] @
            [cr, nl] @
            body @ [cr, nl])) ''failed to write message: ''
       (try_call wd CloseData ''failed to close data writer: ''
       (smtp_call wd Quit)))))))
       (tr @ [Extension ''STARTTLS'']))"

definition Send :: "world \<Rightarrow> Sender \<Rightarrow> string \<Rightarrow> string \<Rightarrow> string \<Rightarrow> string option io" where
  "Send wd s to subject body tr =
     (case smtp_call wd (Dial (SMTPHost (config s) @ '':'' @ SMTPPort (config s))) tr of
        (Some err, tr') \<Rightarrow> (Some (''failed to connect to SMTP server: '' @ err), tr')
      | (None, tr') \<Rightarrow>
          (case Send_session wd s to subject body tr' of
             (res, tr'') \<Rightarrow> (res, tr'' @ [CloseClient])))"

definition SendContactNotification ::
  "world \<Rightarrow> Sender \<Rightarrow> string \<Rightarrow> string \<Rightarrow> string \<Rightarrow> string \<Rightarrow> string option io" where
  "SendContactNotification wd s name email subject message =
     (let recipientSubject = ''New Contact Form Submission: '' @ subject;
          recipientBody =
            [nl, tab, tab] @ ''<html>'' @
            [nl, tab, tab] @ ''<body>'' @
            [nl, tab, tab, tab] @ ''<h2>New Contact Form Submission</h2>'' @
            [nl, tab, tab, tab] @ ''<p><strong>Name:</strong> '' @ name @ ''</p>'' @
            [nl, tab, tab, tab] @ ''<p><strong>Email:</strong> '' @ email @ ''</p>'' @
            [nl, tab, tab, tab] @ ''<p><strong>Subject:</strong> '' @ subject @ ''</p>'' @
            [nl, tab, tab, tab] @ ''<p><strong>Message:</strong></p>'' @
            [nl, tab, tab, tab] @ ''<p>'' @ ReplaceAll message nl ''<br>'' @ ''</p>'' @
            [nl, tab, tab] @ ''</body>'' @
            [nl, tab, tab] @ ''</html>'' @
            [nl, tab]
      in Send wd s (RecipientEmail (config s)) recipientSubject recipientBody)"

definition SendConfirmation ::
  "world \<Rightarrow> Sender \<Rightarrow> string \<Rightarrow> string \<Rightarrow> string \<Rightarrow> string option io" where
  "SendConfirmation wd s name email message =
     (let confirmationSubject = ''Thank you for contacting us'';
          confirmationBody =
            [nl, tab, tab] @ ''<html>'' @
            [nl, tab, tab] @ ''<body>'' @
            [nl, tab, tab, tab] @ ''<h2>Thank you for your message, '' @ name @ ''!</h2>'' @
            [nl, tab, tab, tab] @ ''<p>We have received your contact form submission and will get back to you as soon as possible.</p>'' @
            [nl, tab, tab, tab] @ ''<hr>'' @
            [nl, tab, tab, tab] @ ''<p><strong>Your message:</strong></p>'' @
            [nl, tab, tab, tab] @ ''<p>'' @ ReplaceAll message nl ''<br>'' @ ''</p>'' @
            [nl, tab, tab, tab] @ ''<hr>'' @
            [nl, tab, tab, tab] @ ''<p>Best regards</p>'' @
            [nl, tab, tab] @ ''</body>'' @
            [nl, tab, tab] @ ''</html>'' @
            [nl, tab]
      in Send wd s email confirmationSubject confirmationBody)"

subsection \<open>Package email, the earlier version (unnamed part 001)\<close>

text \<open>This version hands the whole session to \<open>smtp.SendMail\<close>: one library call,
  whose arguments are the server address, the authentication, the envelope sender, the
  recipients and the message bytes.\<close>

definition Send_part_001 :: "world \<Rightarrow> Sender \<Rightarrow> string \<Rightarrow> string \<Rightarrow> string \<Rightarrow> string option io" where
  "Send_part_001 wd s to subject body =
     (let auth = PlainAuth [] (SMTPUser (config s)) (SMTPPassword (config s)) (SMTPHost (config s));
          msg = ''From: '' @ FromEmail (config s) @ [cr, nl] @
                ''To: '' @ to @ [cr, nl] @
                ''Subject: '' @ subject @ [cr, nl] @
                ''MIME-Version: 1.0'' @ [cr, nl] @
                ''Content-Type: text/html; charset=UTF-8'' @ [cr, nl] @
                [cr, nl] @
                body @ [cr, nl];
          addr = SMTPHost (config s) @ '':'' @ SMTPPort (config s)
      in smtp_call wd (SendMail addr auth (FromEmail (config s)) [to] msg))"

definition SendContactNotification_part_001 ::
  "world \<Rightarrow> Sender \<Rightarrow> string \<Rightarrow> string \<Rightarrow> string \<Rightarrow> string \<Rightarrow> string option io" where
  "SendContactNotification_part_001 wd s name email subject message =
     (let recipientSubject = ''New Contact Form Submission: '' @ subject;
          recipientBody =
            [nl, tab, tab] @ ''<html>'' @
            [nl, tab, tab] @ ''<body>'' @
            [nl, tab, tab, tab] @ ''<h2>New Contact Form Submission</h2>'' @
            [nl, tab, tab, tab] @ ''<p><strong>Name:</strong> '' @ name @ ''</p>'' @
            [nl, tab, tab, tab] @ ''<p><strong>Email:</strong> '' @ email @ ''</p>'' @
            [nl, tab, tab, tab] @ ''<p><strong>Subject:</strong> '' @ subject @ ''</p>'' @
            [nl, tab, tab, tab] @ ''<p><strong>Message:</strong></p>'' @
            [nl, tab, tab, tab] @ ''<p>'' @ ReplaceAll message nl ''<br>'' @ ''</p>'' @
            [nl, tab, tab] @ ''</body>'' @
            [nl, tab, tab] @ ''</html>'' @
            [nl, tab]
      in Send_part_001 wd s (RecipientEmail (config s)) recipientSubject recipientBody)"

definition SendConfirmation_part_001 ::
  "world \<Rightarrow> Sender \<Rightarrow> string \<Rightarrow> string \<Rightarrow> string \<Rightarrow> string option io" where
  "SendConfirmation_part_001 wd s name email message =
     (let confirmationSubject = ''Thank you for contacting us'';
          confirmationBody =
            [nl, tab, tab] @ ''<html>'' @
            [nl, tab, tab] @ ''<body>'' @
            [nl, tab, tab, tab] @ ''<h2>Thank you for your message, '' @ name @ ''!</h2>'' @
            [nl, tab, tab, tab] @ ''<p>We have received your contact form submission and will get back to you as soon as possible.</p>'' @
            [nl, tab, tab, tab] @ ''<hr>'' @
            [nl, tab, tab, tab] @ ''<p><strong>Your message:</strong></p>'' @
            [nl, tab, tab, tab] @ ''<p>'' @ ReplaceAll message nl ''<br>'' @ ''</p>'' @
            [nl, tab, tab, tab] @ ''<hr>'' @
            [nl, tab, tab, tab] @ ''<p>Best regards</p>'' @
            [nl, tab, tab] @ ''</body>'' @
            [nl, tab, tab] @ ''</html>'' @
            [nl, tab]
      in Send_part_001 wd s email confirmationSubject confirmationBody)"

subsection \<open>Package handler (internal/handler/contact.go)\<close>

record ContactForm =
  Name :: string
  Email :: string
  Subject :: string
  Message :: string

record ContactHandler =
  emailSender :: Sender
  corsOrigin :: string

definition NewContactHandler :: "Sender \<Rightarrow> string \<Rightarrow> ContactHandler" where
  "NewContactHandler es origin = \<lparr> emailSender = es, corsOrigin = origin \<rparr>"

text \<open>Lines 50 to 69 of \<open>ServeHTTP\<close>: the form is read from the JSON body when the
  content type contains \<open>application/json\<close> (\<open>strings.Contains\<close>), from the parsed
  form otherwise. \<open>Inl\<close> carries the text handed to \<open>http.Error\<close>.\<close>

definition parse_ContactForm :: "world \<Rightarrow> request \<Rightarrow> string + ContactForm" where
  "parse_ContactForm wd r =
     (if sublist ''application/json'' (ContentType r)
      then (case json_Decode wd (Body r) of
              Inl err \<Rightarrow> Inl ''Invalid JSON format''
            | Inr field \<Rightarrow>
                Inr \<lparr> Name = field ''name'', Email = field ''email'',
                      Subject = field ''subject'', Message = field ''message'' \<rparr>)
      else (case http_ParseForm wd r of
              Inl err \<Rightarrow> Inl ''Failed to parse form''
            | Inr FormValue \<Rightarrow>
                Inr \<lparr> Name = FormValue ''name'', Email = FormValue ''email'',
                      Subject = FormValue ''subject'', Message = FormValue ''message'' \<rparr>))"

definition ServeHTTP :: "world \<Rightarrow> ContactHandler \<Rightarrow> request \<Rightarrow> event list \<Rightarrow> event list" where
  "ServeHTTP wd h r tr0 =
     (let tr1 = tr0 @ [SetHeader ''Access-Control-Allow-Origin'' (corsOrigin h),
                       SetHeader ''Access-Control-Allow-Methods'' ''POST, OPTIONS'',
                       SetHeader ''Access-Control-Allow-Headers'' ''Content-Type'']
      in if Method r = ''OPTIONS'' then tr1 @ [WriteHeader 200]
      else if Method r \<noteq> ''POST'' then tr1 @ [HttpError ''Method not allowed'' 405]
      else (case parse_ContactForm wd r of
              Inl msg \<Rightarrow> tr1 @ [HttpError msg 400]
            | Inr form \<Rightarrow>
                if Name form = [] \<or> Email form = [] \<or> Message form = []
                then tr1 @ [HttpError ''Name, email, and message are required'' 400]
                else (case SendContactNotification wd (emailSender h)
                             (Name form) (Email form) (Subject form) (Message form) tr1 of
                        (Some err, tr2) \<Rightarrow>
                          tr2 @ [LogPrintf (''Failed to send email to recipient: '' @ err),
                                 HttpError ''Failed to send email'' 500]
                      | (None, tr2) \<Rightarrow>
                          (case SendConfirmation wd (emailSender h)
                                  (Name form) (Email form) (Message form) tr2 of
                             (res, tr3) \<Rightarrow>
                               (case res of
                                  Some err \<Rightarrow>
                                    tr3 @ [LogPrintf (''Failed to send confirmation email to customer: '' @ err)]
                                | None \<Rightarrow> tr3)
                               @ [SetHeader ''Content-Type'' ''application/json'',
                                  WriteHeader 200,
                                  EncodeJSON [(''status'', ''success''),
                                              (''message'', ''Your message has been sent successfully'')]]))))"

subsection \<open>Command server (cmd/server/main.go)\<close>

text \<open>\<open>main\<close> either dies in \<open>log.Fatal\<close> or stays in \<open>http.ListenAndServe\<close>
  with the handler registered. The second argument is the world's answer to
  \<open>ListenAndServe\<close> on an address: an error, or \<open>None\<close> when it keeps serving.\<close>

datatype exit = Fatal string | Serving string ContactHandler

definition main :: "(string \<Rightarrow> string) \<Rightarrow> (string \<Rightarrow> string option) \<Rightarrow> exit" where
  "main os_Getenv ListenAndServe =
     (let cfg = Load os_Getenv
      in if SMTPUser cfg = [] \<or> SMTPPassword cfg = [] \<or> RecipientEmail cfg = []
         then Fatal ''SMTP_USER, SMTP_PASSWORD, and RECIPIENT_EMAIL must be set''
         else (let emailSender = NewSender cfg;
                   contactHandler = NewContactHandler emailSender (CORSOrigin cfg)
               in case ListenAndServe ('':'' @ ServerPort cfg) of
                    Some err \<Rightarrow> Fatal err
                  | None \<Rightarrow> Serving ('':'' @ ServerPort cfg) contactHandler))"

subsection \<open>Observing a trace\<close>

text \<open>
  What a client and a mail server see of a list of events. \<open>http.Error(w, msg, code)\<close>
  writes the status \<open>code\<close> and the text \<open>msg\<close> (the library ends it with a
  newline); the encoder writes the map as a JSON object (the library sorts the keys and
  ends with a newline), with the implicit status 200 if none was written. The body is
  observed as the text and the object handed to the library, not as bytes. The first
  status written is the status of the response.
\<close>

datatype payload = PlainText string | JSONObject "(string \<times> string) list"

fun response_status :: "event list \<Rightarrow> nat option" where
  "response_status [] = None"
| "response_status (WriteHeader c # es) = Some c"
| "response_status (HttpError m c # es) = Some c"
| "response_status (EncodeJSON kv # es) = Some 200"
| "response_status (e # es) = response_status es"

fun response_body :: "event list \<Rightarrow> payload list" where
  "response_body [] = []"
| "response_body (HttpError m c # es) = PlainText m # response_body es"
| "response_body (EncodeJSON kv # es) = JSONObject kv # response_body es"
| "response_body (e # es) = response_body es"

fun is_smtp :: "event \<Rightarrow> bool" where
  "is_smtp (SetHeader k v) = False"
| "is_smtp (WriteHeader c) = False"
| "is_smtp (HttpError m c) = False"
| "is_smtp (EncodeJSON kv) = False"
| "is_smtp (LogPrintf m) = False"
| "is_smtp e = True"

fun is_Dial :: "event \<Rightarrow> bool" where
  "is_Dial (Dial a) = True"
| "is_Dial e = False"

text \<open>\<open>Send\<close> begins with \<open>smtp.Dial\<close>, so the dispatches of a trace are its
  \<open>Dial\<close> events.\<close>

definition dispatches :: "event list \<Rightarrow> nat" where
  "dispatches es = length (filter is_Dial es)"

definition session_event :: "event \<Rightarrow> bool" where
  "session_event e = (is_smtp e \<and> \<not> is_Dial e)"

definition events_since :: "event list \<Rightarrow> event list \<Rightarrow> event list" where
  "events_since tr0 tr = drop (length tr0) tr"

abbreviation cors :: "ContactHandler \<Rightarrow> event list" where
  "cors h \<equiv> [SetHeader ''Access-Control-Allow-Origin'' (corsOrigin h),
             SetHeader ''Access-Control-Allow-Methods'' ''POST, OPTIONS'',
             SetHeader ''Access-Control-Allow-Headers'' ''Content-Type'']"

text \<open>The envelope and the message bytes given to the SMTP library, in either style
  of session.\<close>

fun envelope_senders :: "event list \<Rightarrow> string list" where
  "envelope_senders [] = []"
| "envelope_senders (Mail f # es) = f # envelope_senders es"
| "envelope_senders (SendMail a au f ts m # es) = f # envelope_senders es"
| "envelope_senders (e # es) = envelope_senders es"

fun envelope_recipients :: "event list \<Rightarrow> string list" where
  "envelope_recipients [] = []"
| "envelope_recipients (Rcpt t # es) = t # envelope_recipients es"
| "envelope_recipients (SendMail a au f ts m # es) = ts @ envelope_recipients es"
| "envelope_recipients (e # es) = envelope_recipients es"

fun message_bytes :: "event list \<Rightarrow> string list" where
  "message_bytes [] = []"
| "message_bytes (WriteData m # es) = m # message_bytes es"
| "message_bytes (SendMail a au f ts m # es) = m # message_bytes es"
| "message_bytes (e # es) = message_bytes es"

subsection \<open>A concrete configuration, requests and worlds\<close>

text \<open>
  The example of the specification: Ada's submission, as a JSON body and as a form body,
  under a configuration whose owner address differs from hers. \<open>example_world\<close>
  answers these bodies as \<open>encoding/json\<close> and \<open>net/http\<close> do and takes the
  replies of the mail server as its argument.
\<close>

definition example_config :: Config where
  "example_config =
     \<lparr> SMTPHost = ''smtp.gmail.com'', SMTPPort = ''587'',
       SMTPUser = ''owner@example.com'', SMTPPassword = ''secret'',
       RecipientEmail = ''owner@example.com'', FromEmail = ''noreply@example.com'',
       ServerPort = ''8080'', CORSOrigin = ''*'' \<rparr>"

definition example_handler :: ContactHandler where
  "example_handler = NewContactHandler (NewSender example_config) (CORSOrigin example_config)"

definition ada_json_newline :: string where
  \<open>ada_json_newline =
     ''{"name":"Ada","email":"ada@example.com","subject":"Hi","message":"Hello'' @
     [CHR 0x5C] @ ''nWorld"}''\<close>

definition ada_json :: string where
  \<open>ada_json = ''{"name":"Ada","email":"ada@example.com","subject":"Hi","message":"Hello"}''\<close>

definition blank_json :: string where
  \<open>blank_json = ''{"name":" ","email":" ","message":" "}''\<close>

definition ada_form :: string where
  "ada_form = ''name=Ada&email=ada%40example.com&subject=Hi&message=Hello''"

definition ada_fields :: "string \<Rightarrow> string \<Rightarrow> string" where
  "ada_fields message k =
     (if k = ''name'' then ''Ada''
      else if k = ''email'' then ''ada@example.com''
      else if k = ''subject'' then ''Hi''
      else if k = ''message'' then message
      else [])"

definition example_world :: "(event list \<Rightarrow> event \<Rightarrow> string option) \<Rightarrow> world" where
  "example_world reply =
     \<lparr> json_Decode = (\<lambda>body.
         if body = ada_json_newline then Inr (ada_fields (''Hello'' @ [nl] @ ''World''))
         else if body = ada_json then Inr (ada_fields ''Hello'')
         else if body = blank_json then Inr (\<lambda>k. if k = ''subject'' then [] else '' '')
         else if body = ''{}'' then Inr (\<lambda>k. [])
         else Inl ''invalid character''),
       http_ParseForm = (\<lambda>r.
         if Body r = ada_form then Inr (ada_fields ''Hello'')
         else if Body r = ''%'' then Inl ''invalid URL escape''
         else Inr (\<lambda>k. [])),
       smtp_reply = reply,
       smtp_Extension = (\<lambda>tr name. True) \<rparr>"

definition post_json :: "string \<Rightarrow> request" where
  "post_json body = \<lparr> Method = ''POST'', ContentType = ''application/json'', Body = body \<rparr>"

definition post_form :: "string \<Rightarrow> request" where
  "post_form body =
     \<lparr> Method = ''POST'', ContentType = ''application/x-www-form-urlencoded'', Body = body \<rparr>"

text \<open>Three mail servers: one accepts every call, one refuses the connection, one
  rejects a single recipient address.\<close>

definition accepting :: "event list \<Rightarrow> event \<Rightarrow> string option" where
  "accepting tr c = None"

definition refusing :: "event list \<Rightarrow> event \<Rightarrow> string option" where
  "refusing tr c = Some ''connection refused''"

definition rejecting :: "string \<Rightarrow> event list \<Rightarrow> event \<Rightarrow> string option" where
  "rejecting addr tr c = (if c = Rcpt addr then Some ''550 no such user'' else None)"

definition ada_submission :: "string \<Rightarrow> ContactForm" where
  "ada_submission message =
     \<lparr> Name = ''Ada'', Email = ''ada@example.com'', Subject = ''Hi'', Message = message \<rparr>"

abbreviation success_json :: "(string \<times> string) list" where
  "success_json \<equiv> [(''status'', ''success''),
                   (''message'', ''Your message has been sent successfully'')]"

text \<open>The message bytes of \<open>Send\<close> and the calls of a session that runs to its
  end, with or without \<open>STARTTLS\<close>.\<close>

abbreviation wire_message :: "Sender \<Rightarrow> string \<Rightarrow> string \<Rightarrow> string \<Rightarrow> string" where
  "wire_message s to subject body \<equiv>
     ''From: '' @ FromEmail (config s) @ [cr, nl] @
     ''To: '' @ to @ [cr, nl] @
     ''Subject: '' @ subject @ [cr, nl] @
     ''MIME-Version: 1.0'' @ [cr, nl] @
     ''Content-Type: text/html; charset=UTF-8'' @ [cr, nl] @
     [cr, nl] @
     body @ [cr, nl]"

abbreviation envelope_session :: "Sender \<Rightarrow> string \<Rightarrow> string \<Rightarrow> string \<Rightarrow> event list" where
  "envelope_session s to subject body \<equiv>
     [Auth (PlainAuth [] (SMTPUser (config s)) (SMTPPassword (config s)) (SMTPHost (config s))),
      Mail (FromEmail (config s)), Rcpt to, Data, WriteData (wire_message s to subject body),
      CloseData, Quit]"

abbreviation full_session :: "bool \<Rightarrow> Sender \<Rightarrow> string \<Rightarrow> string \<Rightarrow> string \<Rightarrow> event list" where
  "full_session tls s to subject body \<equiv>
     [Hello (SMTPHost (config s)), Extension ''STARTTLS''] @
     (if tls then [StartTLS (SMTPHost (config s))] else []) @
     envelope_session s to subject body"

text \<open>A process environment that sets the three checked variables and nothing else,
  so \<open>FROM_EMAIL\<close> is unset.\<close>

definition env_without_from :: "string \<Rightarrow> string" where
  "env_without_from key =
     (if key = ''SMTP_USER'' then ''owner@example.com''
      else if key = ''SMTP_PASSWORD'' then ''secret''
      else if key = ''RECIPIENT_EMAIL'' then ''owner@example.com''
      else [])"

section \<open>Proofs\<close>

subsection \<open>Traces of the SMTP session\<close>

lemma response_status_append:
  "response_status (xs @ ys) =
     (case response_status xs of Some c \<Rightarrow> Some c | None \<Rightarrow> response_status ys)"
  by (induction xs rule: response_status.induct) simp_all

lemma response_body_append: "response_body (xs @ ys) = response_body xs @ response_body ys"
  by (induction xs rule: response_body.induct) simp_all

lemma response_status_smtp: "list_all is_smtp es \<Longrightarrow> response_status es = None"
  by (induction es rule: response_status.induct) simp_all

lemma response_body_smtp: "list_all is_smtp es \<Longrightarrow> response_body es = []"
  by (induction es rule: response_body.induct) simp_all

lemma events_since_append [simp]: "events_since tr (tr @ es) = es"
  by (simp add: events_since_def)

lemma session_events_smtp: "list_all session_event es \<Longrightarrow> list_all is_smtp es"
  by (induction es) (simp_all add: session_event_def)

lemma session_events_no_dispatch: "list_all session_event es \<Longrightarrow> dispatches es = 0"
  by (induction es) (simp_all add: session_event_def dispatches_def)

lemma smtp_call_ext: "P c \<Longrightarrow> \<exists>es. snd (smtp_call wd c tr) = tr @ es \<and> list_all P es"
  by (simp add: smtp_call_def)

lemma try_call_ext:
  assumes "\<And>tr. \<exists>es. snd (rest tr) = tr @ es \<and> list_all P es" and "P c"
  shows "\<exists>es. snd (try_call wd c w rest tr) = tr @ es \<and> list_all P es"
proof (cases "smtp_reply wd tr c")
  case None
  from assms(1) obtain es where "snd (rest (tr @ [c])) = (tr @ [c]) @ es" "list_all P es"
    by blast
  with None assms(2) show ?thesis
    by (simp add: try_call_def smtp_call_def)
next
  case (Some err)
  with assms(2) show ?thesis
    by (simp add: try_call_def smtp_call_def)
qed

lemma Send_session_ext:
  "\<exists>es. snd (Send_session wd s to subject body tr) = tr @ es \<and> list_all session_event es"
  unfolding Send_session_def
proof (rule try_call_ext)
  show "session_event (Hello (SMTPHost (config s)))" by (simp add: session_event_def)
next
  fix tr
  let ?chain = "try_call wd (Auth (PlainAuth [] (SMTPUser (config s)) (SMTPPassword (config s))
                      (SMTPHost (config s)))) ''authentication failed: ''
       (try_call wd (Mail (FromEmail (config s))) ''failed to set sender: ''
       (try_call wd (Rcpt to) ''failed to set recipient: ''
       (try_call wd Data ''failed to open data writer: ''
       (try_call wd (WriteData
           (''From: '' @ FromEmail (config s) @ [cr, nl] @
            ''To: '' @ to @ [cr, nl] @
            ''Subject: '' @ subject @ [cr, nl] @
            ''MIME-Version: 1.0'' @ [cr, nl] @
            ''Content-Type: text/html; charset=UTF-8'' @ [cr, nl] @
            [cr, nl] @
            body @ [cr, nl])) ''failed to write message: ''
       (try_call wd CloseData ''failed to close data writer: ''
       (smtp_call wd Quit))))))"
  let ?tls = "try_call wd (StartTLS (SMTPHost (config s))) ''failed to start TLS: '' ?chain"
  let ?ext = "Extension ''STARTTLS''"
  have chain: "\<exists>es. snd (?chain t) = t @ es \<and> list_all session_event es" for t
    by (intro try_call_ext smtp_call_ext) (simp_all add: session_event_def)
  have tls: "\<exists>es. snd (?tls t) = t @ es \<and> list_all session_event es" for t
    by (intro try_call_ext smtp_call_ext) (simp_all add: session_event_def)
  show "\<exists>es. snd ((if smtp_Extension wd tr ''STARTTLS''
        then try_call wd (StartTLS (SMTPHost (config s))) ''failed to start TLS: ''
        else (\<lambda>rest. rest)) ?chain (tr @ [?ext])) = tr @ es \<and> list_all session_event es"
  proof (cases "smtp_Extension wd tr ''STARTTLS''")
    case True
    from tls [of "tr @ [?ext]"] obtain es where
      "snd (?tls (tr @ [?ext])) = (tr @ [?ext]) @ es" "list_all session_event es"
      by blast
    with True show ?thesis
      by (intro exI [of _ "?ext # es"]) (simp add: session_event_def)
  next
    case False
    from chain [of "tr @ [?ext]"] obtain es where
      "snd (?chain (tr @ [?ext])) = (tr @ [?ext]) @ es" "list_all session_event es"
      by blast
    with False show ?thesis
      by (intro exI [of _ "?ext # es"]) (simp add: session_event_def)
  qed
qed

lemma Send_ext:
  "\<exists>es. snd (Send wd s to subject body tr) =
          tr @ Dial (SMTPHost (config s) @ '':'' @ SMTPPort (config s)) # es \<and>
        list_all session_event es"
proof (cases "smtp_reply wd tr (Dial (SMTPHost (config s) @ '':'' @ SMTPPort (config s)))")
  case (Some err)
  then show ?thesis by (simp add: Send_def smtp_call_def)
next
  case None
  let ?d = "Dial (SMTPHost (config s) @ '':'' @ SMTPPort (config s))"
  from Send_session_ext [of wd s to subject body "tr @ [?d]"]
  obtain es where
    "snd (Send_session wd s to subject body (tr @ [?d])) = (tr @ [?d]) @ es"
    "list_all session_event es"
    by blast
  with None show ?thesis
    by (intro exI [of _ "es @ [CloseClient]"])
       (simp add: Send_def smtp_call_def session_event_def case_prod_beta)
qed

lemma SendContactNotification_ext:
  "\<exists>a es. snd (SendContactNotification wd s name email subject message tr) = tr @ Dial a # es \<and>
          list_all session_event es"
  unfolding SendContactNotification_def Let_def using Send_ext by blast

lemma SendConfirmation_ext:
  "\<exists>a es. snd (SendConfirmation wd s name email message tr) = tr @ Dial a # es \<and>
          list_all session_event es"
  unfolding SendConfirmation_def Let_def using Send_ext by blast

lemma dispatch_segment:
  "list_all session_event es \<Longrightarrow> dispatches (Dial a # es) = 1"
  using session_events_no_dispatch [of es] by (simp add: dispatches_def)

lemma dispatches_append: "dispatches (xs @ ys) = dispatches xs + dispatches ys"
  by (simp add: dispatches_def)

lemmas example_defs = example_world_def example_handler_def example_config_def post_json_def
  post_form_def ada_json_def ada_json_newline_def blank_json_def ada_form_def ada_fields_def
  NewContactHandler_def NewSender_def ada_submission_def accepting_def refusing_def
  rejecting_def

lemma pair_with_fst: "fst p = a \<Longrightarrow> p = (a, snd p)"
  by (cases p) simp

subsection \<open>The handler's outcomes\<close>

text \<open>
  Claim C1. A POST request whose parsed name, email and message are non-empty and whose
  notification dispatch returns an error is answered with status 500 and the text
  "Failed to send email". After the notification has returned (trace \<open>tr2\<close>) the handler
  only logs and writes the error: the request has one dispatch, the notification's, and
  the confirmation is never started.
\<close>

theorem notification_failure_gives_500:
  assumes "Method r = ''POST''"
    and "parse_ContactForm wd r = Inr form"
    and "Name form \<noteq> []" and "Email form \<noteq> []" and "Message form \<noteq> []"
    and "SendContactNotification wd (emailSender h) (Name form) (Email form) (Subject form)
           (Message form) (tr0 @ cors h) = (Some err, tr2)"
  shows "ServeHTTP wd h r tr0 =
           tr2 @ [LogPrintf (''Failed to send email to recipient: '' @ err),
                  HttpError ''Failed to send email'' 500] \<and>
         response_status (events_since tr0 (ServeHTTP wd h r tr0)) = Some 500 \<and>
         response_body (events_since tr0 (ServeHTTP wd h r tr0)) =
           [PlainText ''Failed to send email''] \<and>
         dispatches (events_since tr0 (ServeHTTP wd h r tr0)) = 1 \<and>
         dispatches (events_since tr0 tr2) = 1"
proof -
  have run: "ServeHTTP wd h r tr0 =
           tr2 @ [LogPrintf (''Failed to send email to recipient: '' @ err),
                  HttpError ''Failed to send email'' 500]"
    using assms by (simp add: ServeHTTP_def)
  from SendContactNotification_ext
    [of wd "emailSender h" "Name form" "Email form" "Subject form" "Message form" "tr0 @ cors h"]
    assms(6)
  obtain a es where tr2: "tr2 = tr0 @ cors h @ Dial a # es" and es: "list_all session_event es"
    by auto
  have new: "events_since tr0 (ServeHTTP wd h r tr0) =
      cors h @ (Dial a # es) @ [LogPrintf (''Failed to send email to recipient: '' @ err),
        HttpError ''Failed to send email'' 500]"
    by (simp add: run tr2 events_since_def)
  have st: "response_status (events_since tr0 (ServeHTTP wd h r tr0)) = Some 500"
    unfolding new
    by (simp add: response_status_append response_status_smtp [OF session_events_smtp [OF es]])
  have bd: "response_body (events_since tr0 (ServeHTTP wd h r tr0)) =
           [PlainText ''Failed to send email'']"
    unfolding new
    by (simp add: response_body_append response_body_smtp [OF session_events_smtp [OF es]])
  have d1: "dispatches (events_since tr0 (ServeHTTP wd h r tr0)) = 1"
    unfolding new
    by (simp only: dispatches_append dispatch_segment [OF es]) (simp add: dispatches_def)
  have d2: "dispatches (events_since tr0 tr2) = 1"
    using dispatch_segment [OF es, of a] by (simp add: tr2 events_since_def dispatches_def)
  from run st bd d1 d2 show ?thesis by blast
qed

theorem notification_failure_gives_500_witness:
  "response_status (events_since []
      (ServeHTTP (example_world refusing) example_handler (post_json ada_json_newline) [])) =
     Some 500 \<and>
   response_body (events_since []
      (ServeHTTP (example_world refusing) example_handler (post_json ada_json_newline) [])) =
     [PlainText ''Failed to send email''] \<and>
   dispatches (events_since []
      (ServeHTTP (example_world refusing) example_handler (post_json ada_json_newline) [])) = 1"
proof -
  let ?wd = "example_world refusing"
  let ?f = "ada_submission (''Hello'' @ [nl] @ ''World'')"
  let ?N = "SendContactNotification ?wd (emailSender example_handler) (Name ?f)
     (Email ?f) (Subject ?f) (Message ?f) ([] @ cors example_handler)"
  have m: "Method (post_json ada_json_newline) = ''POST''"
    by (simp add: post_json_def)
  have p: "parse_ContactForm ?wd (post_json ada_json_newline) = Inr ?f"
    by (simp add: example_defs parse_ContactForm_def sublist_code)
  have ne: "Name ?f \<noteq> []" "Email ?f \<noteq> []" "Message ?f \<noteq> []"
    by (simp_all add: ada_submission_def)
  have n: "fst ?N = Some ''failed to connect to SMTP server: connection refused''"
    by code_simp
  from notification_failure_gives_500 [OF m p ne pair_with_fst [OF n]]
  show ?thesis by blast
qed

lemma ServeHTTP_valid:
  assumes "Method r = ''POST''"
    and "parse_ContactForm wd r = Inr form"
    and "Name form \<noteq> []" and "Email form \<noteq> []" and "Message form \<noteq> []"
  shows "\<exists>a1 es1 r1.
      SendContactNotification wd (emailSender h) (Name form) (Email form) (Subject form)
        (Message form) (tr0 @ cors h) = (r1, tr0 @ cors h @ Dial a1 # es1) \<and>
      list_all session_event es1 \<and>
      (case r1 of
         Some err \<Rightarrow>
           ServeHTTP wd h r tr0 =
             tr0 @ cors h @ Dial a1 # es1 @
               [LogPrintf (''Failed to send email to recipient: '' @ err),
                HttpError ''Failed to send email'' 500]
       | None \<Rightarrow>
           (\<exists>a2 es2 r2.
              SendConfirmation wd (emailSender h) (Name form) (Email form) (Message form)
                (tr0 @ cors h @ Dial a1 # es1) =
                (r2, tr0 @ cors h @ Dial a1 # es1 @ Dial a2 # es2) \<and>
              list_all session_event es2 \<and>
              ServeHTTP wd h r tr0 =
                tr0 @ cors h @ Dial a1 # es1 @ Dial a2 # es2 @
                  (case r2 of
                     Some err \<Rightarrow>
                       [LogPrintf (''Failed to send confirmation email to customer: '' @ err)]
                   | None \<Rightarrow> []) @
                  [SetHeader ''Content-Type'' ''application/json'', WriteHeader 200,
                   EncodeJSON success_json]))"
proof -
  let ?N = "SendContactNotification wd (emailSender h) (Name form) (Email form) (Subject form)
        (Message form) (tr0 @ cors h)"
  from SendContactNotification_ext
    [of wd "emailSender h" "Name form" "Email form" "Subject form" "Message form" "tr0 @ cors h"]
  obtain a1 es1 where t1: "snd ?N = (tr0 @ cors h) @ Dial a1 # es1"
    and es1: "list_all session_event es1"
    by blast
  let ?tr2 = "tr0 @ cors h @ Dial a1 # es1"
  have N: "?N = (fst ?N, ?tr2)"
    using t1 by (cases ?N) simp
  show ?thesis
  proof (cases "fst ?N")
    case (Some err)
    with N have N': "?N = (Some err, ?tr2)" by simp
    have "ServeHTTP wd h r tr0 = ?tr2 @
               [LogPrintf (''Failed to send email to recipient: '' @ err),
                HttpError ''Failed to send email'' 500]"
      using assms N' by (simp add: ServeHTTP_def)
    with N' es1 show ?thesis
      by (intro exI [of _ a1] exI [of _ es1] exI [of _ "Some err"]) simp
  next
    case None
    with N have N': "?N = (None, ?tr2)" by simp
    let ?C = "SendConfirmation wd (emailSender h) (Name form) (Email form) (Message form) ?tr2"
    from SendConfirmation_ext
      [of wd "emailSender h" "Name form" "Email form" "Message form" ?tr2]
    obtain a2 es2 where t2: "snd ?C = ?tr2 @ Dial a2 # es2"
      and es2: "list_all session_event es2"
      by blast
    have C: "?C = (fst ?C, tr0 @ cors h @ Dial a1 # es1 @ Dial a2 # es2)"
      using t2 by (cases ?C) simp
    have run: "ServeHTTP wd h r tr0 =
                tr0 @ cors h @ Dial a1 # es1 @ Dial a2 # es2 @
                  (case fst ?C of
                     Some err \<Rightarrow>
                       [LogPrintf (''Failed to send confirmation email to customer: '' @ err)]
                   | None \<Rightarrow> []) @
                  [SetHeader ''Content-Type'' ''application/json'', WriteHeader 200,
                   EncodeJSON success_json]"
      using assms N' C by (cases "fst ?C") (simp_all add: ServeHTTP_def)
    from N' es1 C es2 run show ?thesis
      by (intro exI [of _ a1] exI [of _ es1] exI [of _ None]) auto
  qed
qed

lemma not_smtp_tail:
  "list_all (\<lambda>e. \<not> is_smtp e)
     ((case r2 of Some err \<Rightarrow> [LogPrintf (pre @ err)] | None \<Rightarrow> []) @
       [SetHeader ''Content-Type'' ''application/json'', WriteHeader 200, EncodeJSON kv])"
  by (cases r2) simp_all

text \<open>
  Claim C2. When the notification succeeds and the confirmation returns an error, the
  handler logs the error and still answers with status 200 and the JSON object
  \<open>{"status":"success","message":"Your message has been sent successfully"}\<close>, the
  same status and body as on full success.
\<close>

theorem confirmation_failure_keeps_200:
  assumes "Method r = ''POST''"
    and "parse_ContactForm wd r = Inr form"
    and "Name form \<noteq> []" and "Email form \<noteq> []" and "Message form \<noteq> []"
    and "SendContactNotification wd (emailSender h) (Name form) (Email form) (Subject form)
           (Message form) (tr0 @ cors h) = (None, tr2)"
    and "SendConfirmation wd (emailSender h) (Name form) (Email form) (Message form) tr2 =
           (Some err, tr3)"
  shows "ServeHTTP wd h r tr0 =
           tr3 @ [LogPrintf (''Failed to send confirmation email to customer: '' @ err),
                  SetHeader ''Content-Type'' ''application/json'',
                  WriteHeader 200,
                  EncodeJSON success_json] \<and>
         response_status (events_since tr0 (ServeHTTP wd h r tr0)) = Some 200 \<and>
         response_body (events_since tr0 (ServeHTTP wd h r tr0)) = [JSONObject success_json] \<and>
         map_of success_json = [''status'' \<mapsto> ''success'',
           ''message'' \<mapsto> ''Your message has been sent successfully'']"
proof -
  have run: "ServeHTTP wd h r tr0 =
           tr3 @ [LogPrintf (''Failed to send confirmation email to customer: '' @ err),
                  SetHeader ''Content-Type'' ''application/json'',
                  WriteHeader 200,
                  EncodeJSON success_json]"
    using assms by (simp add: ServeHTTP_def)
  from SendContactNotification_ext
    [of wd "emailSender h" "Name form" "Email form" "Subject form" "Message form" "tr0 @ cors h"]
    assms(6)
  obtain a es where tr2: "tr2 = tr0 @ cors h @ Dial a # es" and es: "list_all session_event es"
    by auto
  from SendConfirmation_ext
    [of wd "emailSender h" "Name form" "Email form" "Message form" tr2] assms(7)
  obtain a' es' where tr3: "tr3 = tr2 @ Dial a' # es'" and es': "list_all session_event es'"
    by auto
  have new: "events_since tr0 (ServeHTTP wd h r tr0) =
      cors h @ (Dial a # es) @ (Dial a' # es') @
        [LogPrintf (''Failed to send confirmation email to customer: '' @ err),
         SetHeader ''Content-Type'' ''application/json'',
         WriteHeader 200,
         EncodeJSON success_json]"
    by (simp add: run tr2 tr3 events_since_def)
  have st: "response_status (events_since tr0 (ServeHTTP wd h r tr0)) = Some 200"
    unfolding new
    by (simp add: response_status_append response_status_smtp [OF session_events_smtp [OF es]]
        response_status_smtp [OF session_events_smtp [OF es']])
  have bd: "response_body (events_since tr0 (ServeHTTP wd h r tr0)) = [JSONObject success_json]"
    unfolding new
    by (simp add: response_body_append response_body_smtp [OF session_events_smtp [OF es]]
        response_body_smtp [OF session_events_smtp [OF es']])
  have js: "map_of success_json = [''status'' \<mapsto> ''success'',
           ''message'' \<mapsto> ''Your message has been sent successfully'']"
    by (rule ext) simp
  from run st bd js show ?thesis by blast
qed

theorem confirmation_failure_keeps_200_witness:
  "response_status (events_since []
      (ServeHTTP (example_world (rejecting ''ada@example.com'')) example_handler
         (post_json ada_json_newline) [])) = Some 200 \<and>
   response_body (events_since []
      (ServeHTTP (example_world (rejecting ''ada@example.com'')) example_handler
         (post_json ada_json_newline) [])) = [JSONObject success_json]"
proof -
  let ?wd = "example_world (rejecting ''ada@example.com'')"
  let ?f = "ada_submission (''Hello'' @ [nl] @ ''World'')"
  let ?N = "SendContactNotification ?wd (emailSender example_handler) (Name ?f)
     (Email ?f) (Subject ?f) (Message ?f) ([] @ cors example_handler)"
  let ?C = "SendConfirmation ?wd (emailSender example_handler) (Name ?f)
     (Email ?f) (Message ?f) (snd ?N)"
  have m: "Method (post_json ada_json_newline) = ''POST''"
    by (simp add: post_json_def)
  have p: "parse_ContactForm ?wd (post_json ada_json_newline) = Inr ?f"
    by (simp add: example_defs parse_ContactForm_def sublist_code)
  have ne: "Name ?f \<noteq> []" "Email ?f \<noteq> []" "Message ?f \<noteq> []"
    by (simp_all add: ada_submission_def)
  have n: "fst ?N = None"
    by code_simp
  have c: "fst ?C = Some ''failed to set recipient: 550 no such user''"
    by code_simp
  from confirmation_failure_keeps_200 [OF m p ne pair_with_fst [OF n] pair_with_fst [OF c]]
  show ?thesis by blast
qed

text \<open>
  Claim C3. A valid submission (a POST that parses, with non-empty name, email and
  message) has exactly one notification dispatch (\<open>t1\<close>, the events of
  \<open>SendContactNotification\<close>, with one \<open>Dial\<close>). The confirmation (\<open>t2\<close>) is
  started from the trace the notification returned with, so after it; it is attempted
  once when the notification succeeded and not at all otherwise. Every other event of
  the request (\<open>rest\<close>) is no SMTP call.
\<close>

theorem dispatch_sequence:
  assumes "Method r = ''POST''"
    and "parse_ContactForm wd r = Inr form"
    and "Name form \<noteq> []" and "Email form \<noteq> []" and "Message form \<noteq> []"
  shows "\<exists>r1 t1 t2 rest.
      SendContactNotification wd (emailSender h) (Name form) (Email form) (Subject form)
        (Message form) (tr0 @ cors h) = (r1, tr0 @ cors h @ t1) \<and>
      dispatches t1 = 1 \<and>
      (r1 = None \<longrightarrow>
         (\<exists>r2. SendConfirmation wd (emailSender h) (Name form) (Email form) (Message form)
                 (tr0 @ cors h @ t1) = (r2, tr0 @ cors h @ t1 @ t2)) \<and>
         dispatches t2 = 1) \<and>
      (r1 \<noteq> None \<longrightarrow> t2 = []) \<and>
      ServeHTTP wd h r tr0 = tr0 @ cors h @ t1 @ t2 @ rest \<and>
      list_all (\<lambda>e. \<not> is_smtp e) rest \<and>
      dispatches (events_since tr0 (ServeHTTP wd h r tr0)) = (if r1 = None then 2 else 1)"
proof -
  from ServeHTTP_valid [OF assms, of h tr0] obtain a1 es1 r1 where
    N: "SendContactNotification wd (emailSender h) (Name form) (Email form) (Subject form)
        (Message form) (tr0 @ cors h) = (r1, tr0 @ cors h @ Dial a1 # es1)"
    and es1: "list_all session_event es1"
    and rest: "(case r1 of
         Some err \<Rightarrow>
           ServeHTTP wd h r tr0 =
             tr0 @ cors h @ Dial a1 # es1 @
               [LogPrintf (''Failed to send email to recipient: '' @ err),
                HttpError ''Failed to send email'' 500]
       | None \<Rightarrow>
           (\<exists>a2 es2 r2.
              SendConfirmation wd (emailSender h) (Name form) (Email form) (Message form)
                (tr0 @ cors h @ Dial a1 # es1) =
                (r2, tr0 @ cors h @ Dial a1 # es1 @ Dial a2 # es2) \<and>
              list_all session_event es2 \<and>
              ServeHTTP wd h r tr0 =
                tr0 @ cors h @ Dial a1 # es1 @ Dial a2 # es2 @
                  (case r2 of
                     Some err \<Rightarrow>
                       [LogPrintf (''Failed to send confirmation email to customer: '' @ err)]
                   | None \<Rightarrow> []) @
                  [SetHeader ''Content-Type'' ''application/json'', WriteHeader 200,
                   EncodeJSON success_json]))"
    by blast
  have d1: "dispatches (Dial a1 # es1) = 1"
    by (rule dispatch_segment [OF es1])
  show ?thesis
  proof (cases r1)
    case (Some err)
    with rest have run: "ServeHTTP wd h r tr0 =
             tr0 @ cors h @ (Dial a1 # es1) @ [] @
               [LogPrintf (''Failed to send email to recipient: '' @ err),
                HttpError ''Failed to send email'' 500]"
      by simp
    have cnt: "dispatches (events_since tr0 (ServeHTTP wd h r tr0)) = 1"
      unfolding run events_since_append
      by (simp only: dispatches_append d1) (simp add: dispatches_def)
    from N Some d1 run cnt show ?thesis
      by (intro exI [of _ r1] exI [of _ "Dial a1 # es1"] exI [of _ "[]"]
          exI [of _ "[LogPrintf (''Failed to send email to recipient: '' @ err),
                HttpError ''Failed to send email'' 500]"]) simp
  next
    case None
    with rest obtain a2 es2 r2 where
      C: "SendConfirmation wd (emailSender h) (Name form) (Email form) (Message form)
                (tr0 @ cors h @ Dial a1 # es1) =
                (r2, tr0 @ cors h @ Dial a1 # es1 @ Dial a2 # es2)"
      and es2: "list_all session_event es2"
      and run0: "ServeHTTP wd h r tr0 =
                tr0 @ cors h @ Dial a1 # es1 @ Dial a2 # es2 @
                  (case r2 of
                     Some err \<Rightarrow>
                       [LogPrintf (''Failed to send confirmation email to customer: '' @ err)]
                   | None \<Rightarrow> []) @
                  [SetHeader ''Content-Type'' ''application/json'', WriteHeader 200,
                   EncodeJSON success_json]"
      by auto
    let ?rest = "(case r2 of
                     Some err \<Rightarrow>
                       [LogPrintf (''Failed to send confirmation email to customer: '' @ err)]
                   | None \<Rightarrow> []) @
                  [SetHeader ''Content-Type'' ''application/json'', WriteHeader 200,
                   EncodeJSON success_json]"
    have run: "ServeHTTP wd h r tr0 = tr0 @ cors h @ (Dial a1 # es1) @ (Dial a2 # es2) @ ?rest"
      using run0 by simp
    have d2: "dispatches (Dial a2 # es2) = 1"
      by (rule dispatch_segment [OF es2])
    have cnt: "dispatches (events_since tr0 (ServeHTTP wd h r tr0)) = 2"
      unfolding run events_since_append
      using session_events_no_dispatch [OF es1] session_events_no_dispatch [OF es2]
      by (cases r2) (simp_all add: dispatches_def)
    have C': "SendConfirmation wd (emailSender h) (Name form) (Email form) (Message form)
                (tr0 @ cors h @ Dial a1 # es1) =
                (r2, tr0 @ cors h @ (Dial a1 # es1) @ Dial a2 # es2)"
      using C by simp
    have cnt': "dispatches (events_since tr0 (ServeHTTP wd h r tr0)) =
        (if r1 = None then 2 else 1)"
      using cnt None by simp
    have tail: "list_all (\<lambda>e. \<not> is_smtp e) ?rest"
      by (rule not_smtp_tail)
    from N None d1 d2 C' run cnt' tail show ?thesis
      by (intro exI [of _ r1] exI [of _ "Dial a1 # es1"] exI [of _ "Dial a2 # es2"]
          exI [of _ ?rest]) blast
  qed
qed

theorem dispatch_sequence_witness:
  "dispatches (events_since []
      (ServeHTTP (example_world accepting) example_handler (post_json ada_json_newline) [])) = 2 \<and>
   dispatches (events_since []
      (ServeHTTP (example_world refusing) example_handler (post_json ada_json_newline) [])) = 1"
proof -
  let ?f = "ada_submission (''Hello'' @ [nl] @ ''World'')"
  let ?N = "\<lambda>wd. SendContactNotification wd (emailSender example_handler) (Name ?f)
     (Email ?f) (Subject ?f) (Message ?f) ([] @ cors example_handler)"
  have m: "Method (post_json ada_json_newline) = ''POST''"
    by (simp add: post_json_def)
  have p: "parse_ContactForm (example_world reply) (post_json ada_json_newline) = Inr ?f" for reply
    by (simp add: example_defs parse_ContactForm_def sublist_code)
  have ne: "Name ?f \<noteq> []" "Email ?f \<noteq> []" "Message ?f \<noteq> []"
    by (simp_all add: ada_submission_def)
  have ok: "fst (?N (example_world accepting)) = None"
    by code_simp
  have ko: "fst (?N (example_world refusing)) \<noteq> None"
    by code_simp
  from dispatch_sequence [OF m p ne, of accepting example_handler "[]"] ok
  have two: "dispatches (events_since []
      (ServeHTTP (example_world accepting) example_handler (post_json ada_json_newline) [])) = 2"
    by auto
  from dispatch_sequence [OF m p ne, of refusing example_handler "[]"] ko
  have one: "dispatches (events_since []
      (ServeHTTP (example_world refusing) example_handler (post_json ada_json_newline) [])) = 1"
    by auto
  from two one show ?thesis by simp
qed

lemma session_event_not_header: "list_all session_event es \<Longrightarrow> SetHeader k v \<notin> set es"
  by (induction es) (auto simp: session_event_def)

lemma ServeHTTP_valid_observe:
  assumes "Method r = ''POST''"
    and "parse_ContactForm wd r = Inr form"
    and "Name form \<noteq> []" and "Email form \<noteq> []" and "Message form \<noteq> []"
  shows "\<exists>rest. ServeHTTP wd h r tr0 = tr0 @ cors h @ rest \<and>
      (\<forall>k v. SetHeader k v \<in> set rest \<longrightarrow> k = ''Content-Type'') \<and>
      0 < dispatches rest \<and>
      (response_status rest = Some 500 \<and> response_body rest = [PlainText ''Failed to send email'']
       \<or> response_status rest = Some 200 \<and> response_body rest = [JSONObject success_json])"
proof -
  from ServeHTTP_valid [OF assms, of h tr0] obtain a1 es1 r1 where
    es1: "list_all session_event es1"
    and rest: "(case r1 of
         Some err \<Rightarrow>
           ServeHTTP wd h r tr0 =
             tr0 @ cors h @ Dial a1 # es1 @
               [LogPrintf (''Failed to send email to recipient: '' @ err),
                HttpError ''Failed to send email'' 500]
       | None \<Rightarrow>
           (\<exists>a2 es2 r2.
              SendConfirmation wd (emailSender h) (Name form) (Email form) (Message form)
                (tr0 @ cors h @ Dial a1 # es1) =
                (r2, tr0 @ cors h @ Dial a1 # es1 @ Dial a2 # es2) \<and>
              list_all session_event es2 \<and>
              ServeHTTP wd h r tr0 =
                tr0 @ cors h @ Dial a1 # es1 @ Dial a2 # es2 @
                  (case r2 of
                     Some err \<Rightarrow>
                       [LogPrintf (''Failed to send confirmation email to customer: '' @ err)]
                   | None \<Rightarrow> []) @
                  [SetHeader ''Content-Type'' ''application/json'', WriteHeader 200,
                   EncodeJSON success_json]))"
    by blast
  note s1 = response_status_smtp [OF session_events_smtp [OF es1]]
  note b1 = response_body_smtp [OF session_events_smtp [OF es1]]
  note h1 = session_event_not_header [OF es1]
  show ?thesis
  proof (cases r1)
    case (Some err)
    with rest have run: "ServeHTTP wd h r tr0 =
             tr0 @ cors h @ Dial a1 # es1 @
               [LogPrintf (''Failed to send email to recipient: '' @ err),
                HttpError ''Failed to send email'' 500]"
      by simp
    show ?thesis
      by (rule exI [of _ "Dial a1 # es1 @
               [LogPrintf (''Failed to send email to recipient: '' @ err),
                HttpError ''Failed to send email'' 500]"])
         (simp add: run response_status_append response_body_append s1 b1 h1 dispatches_def)
  next
    case None
    with rest obtain a2 es2 r2 where es2: "list_all session_event es2"
      and run: "ServeHTTP wd h r tr0 =
                tr0 @ cors h @ Dial a1 # es1 @ Dial a2 # es2 @
                  (case r2 of
                     Some err \<Rightarrow>
                       [LogPrintf (''Failed to send confirmation email to customer: '' @ err)]
                   | None \<Rightarrow> []) @
                  [SetHeader ''Content-Type'' ''application/json'', WriteHeader 200,
                   EncodeJSON success_json]"
      by auto
    note s2 = response_status_smtp [OF session_events_smtp [OF es2]]
    note b2 = response_body_smtp [OF session_events_smtp [OF es2]]
    note h2 = session_event_not_header [OF es2]
    show ?thesis
      by (rule exI [of _ "Dial a1 # es1 @ Dial a2 # es2 @
                  (case r2 of
                     Some err \<Rightarrow>
                       [LogPrintf (''Failed to send confirmation email to customer: '' @ err)]
                   | None \<Rightarrow> []) @
                  [SetHeader ''Content-Type'' ''application/json'', WriteHeader 200,
                   EncodeJSON success_json]"], cases r2)
         (simp_all add: run response_status_append response_body_append s1 b1 h1 s2 b2 h2
            dispatches_def)
  qed
qed

text \<open>
  Claim C4. A POST request that parses with an empty name, email or message is answered
  with status 400 and the text "Name, email, and message are required", and nothing is
  dispatched. The check is for the empty string only: when the three fields are
  non-empty, whatever they contain (a single blank, say), the request is not answered
  400 and a dispatch takes place.
\<close>

theorem missing_field_gives_400:
  assumes "Method r = ''POST''"
    and "parse_ContactForm wd r = Inr form"
  shows "(Name form = [] \<or> Email form = [] \<or> Message form = [] \<longrightarrow>
            ServeHTTP wd h r tr0 =
              tr0 @ cors h @ [HttpError ''Name, email, and message are required'' 400] \<and>
            response_status (events_since tr0 (ServeHTTP wd h r tr0)) = Some 400 \<and>
            response_body (events_since tr0 (ServeHTTP wd h r tr0)) =
              [PlainText ''Name, email, and message are required''] \<and>
            dispatches (events_since tr0 (ServeHTTP wd h r tr0)) = 0) \<and>
         (Name form \<noteq> [] \<and> Email form \<noteq> [] \<and> Message form \<noteq> [] \<longrightarrow>
            response_status (events_since tr0 (ServeHTTP wd h r tr0)) \<noteq> Some 400 \<and>
            0 < dispatches (events_since tr0 (ServeHTTP wd h r tr0)))"
proof (intro conjI impI)
  assume empty: "Name form = [] \<or> Email form = [] \<or> Message form = []"
  with assms show run: "ServeHTTP wd h r tr0 =
      tr0 @ cors h @ [HttpError ''Name, email, and message are required'' 400]"
    by (simp add: ServeHTTP_def)
  show "response_status (events_since tr0 (ServeHTTP wd h r tr0)) = Some 400"
    by (simp add: run events_since_def)
  show "response_body (events_since tr0 (ServeHTTP wd h r tr0)) =
      [PlainText ''Name, email, and message are required'']"
    by (simp add: run events_since_def)
  show "dispatches (events_since tr0 (ServeHTTP wd h r tr0)) = 0"
    by (simp add: run events_since_def dispatches_def)
next
  assume full: "Name form \<noteq> [] \<and> Email form \<noteq> [] \<and> Message form \<noteq> []"
  with ServeHTTP_valid_observe [OF assms, of h tr0] obtain rest where
    run: "ServeHTTP wd h r tr0 = tr0 @ cors h @ rest"
    and d: "0 < dispatches rest"
    and st: "response_status rest = Some 500 \<or> response_status rest = Some 200"
    by blast
  have new: "events_since tr0 (ServeHTTP wd h r tr0) = cors h @ rest"
    by (simp add: run events_since_def)
  from st show "response_status (events_since tr0 (ServeHTTP wd h r tr0)) \<noteq> Some 400"
    by (auto simp: new)
  from d show "0 < dispatches (events_since tr0 (ServeHTTP wd h r tr0))"
    by (simp add: new dispatches_def)
qed

theorem missing_field_gives_400_witness:
  "response_status (events_since []
      (ServeHTTP (example_world accepting) example_handler (post_json ''{}'') [])) = Some 400 \<and>
   response_body (events_since []
      (ServeHTTP (example_world accepting) example_handler (post_json ''{}'') [])) =
     [PlainText ''Name, email, and message are required''] \<and>
   dispatches (events_since []
      (ServeHTTP (example_world accepting) example_handler (post_json ''{}'') [])) = 0 \<and>
   response_status (events_since []
      (ServeHTTP (example_world accepting) example_handler (post_json blank_json) [])) \<noteq> Some 400 \<and>
   0 < dispatches (events_since []
      (ServeHTTP (example_world accepting) example_handler (post_json blank_json) []))"
proof -
  let ?wd = "example_world accepting"
  let ?none = "\<lparr> Name = [], Email = [], Subject = [], Message = [] \<rparr>"
  let ?blank = "\<lparr> Name = '' '', Email = '' '', Subject = [], Message = '' '' \<rparr>"
  have m: "Method (post_json b) = ''POST''" for b
    by (simp add: post_json_def)
  have p0: "parse_ContactForm ?wd (post_json ''{}'') = Inr ?none"
    by (simp add: example_defs parse_ContactForm_def sublist_code)
  have p1: "parse_ContactForm ?wd (post_json blank_json) = Inr ?blank"
    by (simp add: example_defs parse_ContactForm_def sublist_code)
  have e: "Name ?none = [] \<or> Email ?none = [] \<or> Message ?none = []"
    by simp
  have f: "Name ?blank \<noteq> [] \<and> Email ?blank \<noteq> [] \<and> Message ?blank \<noteq> []"
    by simp
  from missing_field_gives_400 [OF m p0, of example_handler "[]"] e
  have a: "response_status (events_since []
      (ServeHTTP ?wd example_handler (post_json ''{}'') [])) = Some 400 \<and>
   response_body (events_since []
      (ServeHTTP ?wd example_handler (post_json ''{}'') [])) =
     [PlainText ''Name, email, and message are required''] \<and>
   dispatches (events_since []
      (ServeHTTP ?wd example_handler (post_json ''{}'') [])) = 0"
    by blast
  from missing_field_gives_400 [OF m p1, of example_handler "[]"] f
  have b: "response_status (events_since []
      (ServeHTTP ?wd example_handler (post_json blank_json) [])) \<noteq> Some 400 \<and>
   0 < dispatches (events_since []
      (ServeHTTP ?wd example_handler (post_json blank_json) []))"
    by blast
  from a b show ?thesis by blast
qed



text \<open>
  Claim C7. For every world, handler, request and history, the first three events of
  the handler are the three CORS headers (the configured origin, \<open>POST, OPTIONS\<close>,
  \<open>Content-Type\<close>); no later event sets one of them again, and the response that
  follows has one of the statuses 200, 405, 400, 500 (200 with no body for
  \<open>OPTIONS\<close>, 405 for any method other than \<open>OPTIONS\<close> and \<open>POST\<close>).
\<close>

theorem cors_headers_first:
  "\<exists>rest. ServeHTTP wd h r tr0 =
            tr0 @ [SetHeader ''Access-Control-Allow-Origin'' (corsOrigin h),
                   SetHeader ''Access-Control-Allow-Methods'' ''POST, OPTIONS'',
                   SetHeader ''Access-Control-Allow-Headers'' ''Content-Type''] @ rest \<and>
          (\<forall>k v. SetHeader k v \<in> set rest \<longrightarrow> k = ''Content-Type'') \<and>
          response_status rest \<in> {Some 200, Some 405, Some 400, Some 500} \<and>
          (Method r = ''OPTIONS'' \<longrightarrow> rest = [WriteHeader 200]) \<and>
          (Method r \<noteq> ''OPTIONS'' \<and> Method r \<noteq> ''POST'' \<longrightarrow>
             rest = [HttpError ''Method not allowed'' 405])"
proof (cases "Method r = ''OPTIONS''")
  case True
  then show ?thesis
    by (intro exI [of _ "[WriteHeader 200]"]) (simp add: ServeHTTP_def)
next
  case False
  note not_options = False
  show ?thesis
  proof (cases "Method r = ''POST''")
    case False
    with not_options show ?thesis
      by (intro exI [of _ "[HttpError ''Method not allowed'' 405]"]) (simp add: ServeHTTP_def)
  next
    case True
    show ?thesis
    proof (cases "parse_ContactForm wd r")
      case (Inl msg)
      with True not_options show ?thesis
        by (intro exI [of _ "[HttpError msg 400]"]) (simp add: ServeHTTP_def)
    next
      case (Inr form)
      show ?thesis
      proof (cases "Name form = [] \<or> Email form = [] \<or> Message form = []")
        case True
        with Inr \<open>Method r = ''POST''\<close> not_options show ?thesis
          by (intro exI [of _ "[HttpError ''Name, email, and message are required'' 400]"])
             (simp add: ServeHTTP_def)
      next
        case False
        then have ne: "Name form \<noteq> []" "Email form \<noteq> []" "Message form \<noteq> []"
          by simp_all
        from ServeHTTP_valid_observe [OF \<open>Method r = ''POST''\<close> Inr ne, of h tr0]
        obtain rest where run: "ServeHTTP wd h r tr0 = tr0 @ cors h @ rest"
          and hd: "\<forall>k v. SetHeader k v \<in> set rest \<longrightarrow> k = ''Content-Type''"
          and st: "response_status rest = Some 500 \<or> response_status rest = Some 200"
          by blast
        from run hd st \<open>Method r = ''POST''\<close> show ?thesis
          by (intro exI [of _ rest]) auto
      qed
    qed
  qed
qed

theorem cors_headers_first_witness:
  "take 3 (ServeHTTP (example_world accepting) example_handler
      \<lparr> Method = ''GET'', ContentType = [], Body = [] \<rparr> []) =
     [SetHeader ''Access-Control-Allow-Origin'' ''*'',
      SetHeader ''Access-Control-Allow-Methods'' ''POST, OPTIONS'',
      SetHeader ''Access-Control-Allow-Headers'' ''Content-Type''] \<and>
   drop 3 (ServeHTTP (example_world accepting) example_handler
      \<lparr> Method = ''GET'', ContentType = [], Body = [] \<rparr> []) =
     [HttpError ''Method not allowed'' 405]"
proof -
  have o: "corsOrigin example_handler = ''*''"
    by (simp add: example_defs)
  have g: "Method \<lparr> Method = ''GET'', ContentType = [], Body = [] \<rparr> \<noteq> ''OPTIONS'' \<and>
      Method \<lparr> Method = ''GET'', ContentType = [], Body = [] \<rparr> \<noteq> ''POST''"
    by simp
  from cors_headers_first [of "example_world accepting" example_handler
      "\<lparr> Method = ''GET'', ContentType = [], Body = [] \<rparr>" "[]"] g
  obtain rest where "ServeHTTP (example_world accepting) example_handler
      \<lparr> Method = ''GET'', ContentType = [], Body = [] \<rparr> [] =
        [] @ [SetHeader ''Access-Control-Allow-Origin'' (corsOrigin example_handler),
                   SetHeader ''Access-Control-Allow-Methods'' ''POST, OPTIONS'',
                   SetHeader ''Access-Control-Allow-Headers'' ''Content-Type''] @ rest"
    and "rest = [HttpError ''Method not allowed'' 405]"
    by blast
  then show ?thesis by (simp add: o)
qed

subsection \<open>The envelope and the message of a session\<close>

lemma smtp_call_shape:
  "\<exists>es. snd (smtp_call wd c tr) = tr @ es \<and> prefix es [c] \<and>
        (fst (smtp_call wd c tr) = None \<longrightarrow> es = [c])"
  by (simp add: smtp_call_def)

lemma try_call_shape:
  assumes "\<And>tr. \<exists>es. snd (rest tr) = tr @ es \<and> prefix es full \<and>
                    (fst (rest tr) = None \<longrightarrow> es = full)"
  shows "\<exists>es. snd (try_call wd c w rest tr) = tr @ es \<and> prefix es (c # full) \<and>
              (fst (try_call wd c w rest tr) = None \<longrightarrow> es = c # full)"
proof (cases "smtp_reply wd tr c")
  case None
  from assms [of "tr @ [c]"] obtain es where
    "snd (rest (tr @ [c])) = (tr @ [c]) @ es \<and> prefix es full \<and>
      (fst (rest (tr @ [c])) = None \<longrightarrow> es = full)" ..
  with None show ?thesis
    by (intro exI [of _ "c # es"]) (simp add: try_call_def smtp_call_def)
next
  case (Some err)
  then show ?thesis
    by (intro exI [of _ "[c]"]) (simp add: try_call_def smtp_call_def)
qed

lemma Send_session_shape:
  "\<exists>es. snd (Send_session wd s to subject body tr) = tr @ es \<and>
     prefix es (full_session (smtp_Extension wd (tr @ [Hello (SMTPHost (config s))]) ''STARTTLS'')
        s to subject body) \<and>
     (fst (Send_session wd s to subject body tr) = None \<longrightarrow>
        es = full_session (smtp_Extension wd (tr @ [Hello (SMTPHost (config s))]) ''STARTTLS'')
          s to subject body)"
proof -
  let ?h = "Hello (SMTPHost (config s))"
  let ?x = "Extension ''STARTTLS''"
  let ?chain = "try_call wd (Auth (PlainAuth [] (SMTPUser (config s)) (SMTPPassword (config s))
                      (SMTPHost (config s)))) ''authentication failed: ''
       (try_call wd (Mail (FromEmail (config s))) ''failed to set sender: ''
       (try_call wd (Rcpt to) ''failed to set recipient: ''
       (try_call wd Data ''failed to open data writer: ''
       (try_call wd (WriteData (wire_message s to subject body)) ''failed to write message: ''
       (try_call wd CloseData ''failed to close data writer: ''
       (smtp_call wd Quit))))))"
  let ?tls = "try_call wd (StartTLS (SMTPHost (config s))) ''failed to start TLS: '' ?chain"
  have chain: "\<exists>es. snd (?chain t) = t @ es \<and> prefix es (envelope_session s to subject body) \<and>
      (fst (?chain t) = None \<longrightarrow> es = envelope_session s to subject body)" for t
    by (rule try_call_shape)+ (rule smtp_call_shape)
  have tls: "\<exists>es. snd (?tls t) = t @ es \<and>
      prefix es (StartTLS (SMTPHost (config s)) # envelope_session s to subject body) \<and>
      (fst (?tls t) = None \<longrightarrow>
         es = StartTLS (SMTPHost (config s)) # envelope_session s to subject body)" for t
    by (rule try_call_shape)+ (rule smtp_call_shape)
  show ?thesis
  proof (cases "smtp_reply wd tr ?h")
    case (Some err)
    then show ?thesis
      by (intro exI [of _ "[?h]"]) (simp add: Send_session_def try_call_def smtp_call_def)
  next
    case None
    show ?thesis
    proof (cases "smtp_Extension wd (tr @ [?h]) ''STARTTLS''")
      case True
      from tls [of "tr @ [?h, ?x]"] obtain es where
        E: "snd (?tls (tr @ [?h, ?x])) = (tr @ [?h, ?x]) @ es \<and>
          prefix es (StartTLS (SMTPHost (config s)) # envelope_session s to subject body) \<and>
          (fst (?tls (tr @ [?h, ?x])) = None \<longrightarrow>
             es = StartTLS (SMTPHost (config s)) # envelope_session s to subject body)" ..
      have run: "Send_session wd s to subject body tr = ?tls (tr @ [?h, ?x])"
        using None True by (simp add: Send_session_def try_call_def [of wd ?h] smtp_call_def)
      from E True show ?thesis
        unfolding run by (intro exI [of _ "?h # ?x # es"]) simp
    next
      case False
      from chain [of "tr @ [?h, ?x]"] obtain es where
        E: "snd (?chain (tr @ [?h, ?x])) = (tr @ [?h, ?x]) @ es \<and>
          prefix es (envelope_session s to subject body) \<and>
          (fst (?chain (tr @ [?h, ?x])) = None \<longrightarrow> es = envelope_session s to subject body)" ..
      have run: "Send_session wd s to subject body tr = ?chain (tr @ [?h, ?x])"
        using None False by (simp add: Send_session_def try_call_def [of wd ?h] smtp_call_def)
      from E False show ?thesis
        unfolding run by (intro exI [of _ "?h # ?x # es"]) simp
    qed
  qed
qed

lemma Send_shape:
  "\<exists>es. snd (Send wd s to subject body tr) =
          tr @ Dial (SMTPHost (config s) @ '':'' @ SMTPPort (config s)) # es \<and>
     (es = [] \<or>
      (\<exists>es'. es = es' @ [CloseClient] \<and>
         prefix es' (full_session
           (smtp_Extension wd
              (tr @ [Dial (SMTPHost (config s) @ '':'' @ SMTPPort (config s)),
                     Hello (SMTPHost (config s))]) ''STARTTLS'')
           s to subject body))) \<and>
     (fst (Send wd s to subject body tr) = None \<longrightarrow>
        es = full_session
           (smtp_Extension wd
              (tr @ [Dial (SMTPHost (config s) @ '':'' @ SMTPPort (config s)),
                     Hello (SMTPHost (config s))]) ''STARTTLS'')
           s to subject body @ [CloseClient])"
proof -
  let ?d = "Dial (SMTPHost (config s) @ '':'' @ SMTPPort (config s))"
  show ?thesis
  proof (cases "smtp_reply wd tr ?d")
    case (Some err)
    then show ?thesis
      by (intro exI [of _ "[]"]) (simp add: Send_def smtp_call_def)
  next
    case None
    from Send_session_shape [of wd s to subject body "tr @ [?d]"] obtain es where
      E: "snd (Send_session wd s to subject body (tr @ [?d])) = (tr @ [?d]) @ es \<and>
        prefix es (full_session
          (smtp_Extension wd ((tr @ [?d]) @ [Hello (SMTPHost (config s))]) ''STARTTLS'')
          s to subject body) \<and>
        (fst (Send_session wd s to subject body (tr @ [?d])) = None \<longrightarrow>
          es = full_session
            (smtp_Extension wd ((tr @ [?d]) @ [Hello (SMTPHost (config s))]) ''STARTTLS'')
            s to subject body)" ..
    have run: "Send wd s to subject body tr =
        (fst (Send_session wd s to subject body (tr @ [?d])),
         snd (Send_session wd s to subject body (tr @ [?d])) @ [CloseClient])"
      using None by (simp add: Send_def smtp_call_def case_prod_beta)
    from E show ?thesis
      unfolding run by (intro exI [of _ "es @ [CloseClient]"]) simp
  qed
qed

lemma envelope_senders_append:
  "envelope_senders (xs @ ys) = envelope_senders xs @ envelope_senders ys"
  by (induction xs rule: envelope_senders.induct) simp_all

lemma envelope_recipients_append:
  "envelope_recipients (xs @ ys) = envelope_recipients xs @ envelope_recipients ys"
  by (induction xs rule: envelope_recipients.induct) simp_all

lemma message_bytes_append:
  "message_bytes (xs @ ys) = message_bytes xs @ message_bytes ys"
  by (induction xs rule: message_bytes.induct) simp_all

lemma envelope_senders_prefix:
  "prefix xs ys \<Longrightarrow> prefix (envelope_senders xs) (envelope_senders ys)"
  by (auto simp: prefix_def envelope_senders_append)

lemma envelope_recipients_prefix:
  "prefix xs ys \<Longrightarrow> prefix (envelope_recipients xs) (envelope_recipients ys)"
  by (auto simp: prefix_def envelope_recipients_append)

lemma message_bytes_prefix:
  "prefix xs ys \<Longrightarrow> prefix (message_bytes xs) (message_bytes ys)"
  by (auto simp: prefix_def message_bytes_append)

lemma full_session_wire:
  "envelope_senders (full_session b s to subject body) = [FromEmail (config s)]"
  "envelope_recipients (full_session b s to subject body) = [to]"
  "message_bytes (full_session b s to subject body) = [wire_message s to subject body]"
  by simp_all

lemma Send_wire_prefix:
  "prefix (envelope_senders (events_since tr (snd (Send wd s to subject body tr))))
     [FromEmail (config s)] \<and>
   prefix (envelope_recipients (events_since tr (snd (Send wd s to subject body tr)))) [to] \<and>
   prefix (message_bytes (events_since tr (snd (Send wd s to subject body tr))))
     [wire_message s to subject body]"
proof -
  let ?d = "Dial (SMTPHost (config s) @ '':'' @ SMTPPort (config s))"
  let ?b = "smtp_Extension wd (tr @ [?d, Hello (SMTPHost (config s))]) ''STARTTLS''"
  from Send_shape [of wd s to subject body tr] obtain es where
    run: "snd (Send wd s to subject body tr) = tr @ ?d # es"
    and es: "es = [] \<or> (\<exists>es'. es = es' @ [CloseClient] \<and>
         prefix es' (full_session ?b s to subject body))"
    by (elim exE conjE)
  from es show ?thesis
  proof
    assume "es = []"
    then show ?thesis by (simp add: run)
  next
    assume "\<exists>es'. es = es' @ [CloseClient] \<and> prefix es' (full_session ?b s to subject body)"
    then obtain es' where es': "es = es' @ [CloseClient]"
      and p: "prefix es' (full_session ?b s to subject body)"
      by (elim exE conjE)
    from envelope_senders_prefix [OF p] envelope_recipients_prefix [OF p]
      message_bytes_prefix [OF p]
    show ?thesis
      unfolding full_session_wire
      by (simp add: run es' envelope_senders_append envelope_recipients_append
          message_bytes_append)
  qed
qed

lemma Send_wire_success:
  assumes "fst (Send wd s to subject body tr) = None"
  shows "envelope_senders (events_since tr (snd (Send wd s to subject body tr))) =
     [FromEmail (config s)] \<and>
   envelope_recipients (events_since tr (snd (Send wd s to subject body tr))) = [to] \<and>
   message_bytes (events_since tr (snd (Send wd s to subject body tr))) =
     [wire_message s to subject body]"
proof -
  let ?d = "Dial (SMTPHost (config s) @ '':'' @ SMTPPort (config s))"
  let ?b = "smtp_Extension wd (tr @ [?d, Hello (SMTPHost (config s))]) ''STARTTLS''"
  from Send_shape [of wd s to subject body tr] assms obtain es where
    run: "snd (Send wd s to subject body tr) = tr @ ?d # es"
    and es: "es = full_session ?b s to subject body @ [CloseClient]"
    by (elim exE conjE) simp
  show ?thesis
    by (simp add: run es)
qed

subsection \<open>The notification\<close>

lemma sublist_skip: "sublist xs ys \<Longrightarrow> sublist xs (ps @ ys)"
  unfolding sublist_def by (metis append.assoc)

lemma ReplaceAll_concat:
  "ReplaceAll s old new = concat (map (\<lambda>c. if c = old then new else [c]) s)"
  by (induction s) simp_all

lemma ServeHTTP_notification_first:
  assumes "Method r = ''POST''"
    and "parse_ContactForm wd r = Inr form"
    and "Name form \<noteq> []" and "Email form \<noteq> []" and "Message form \<noteq> []"
  shows "prefix (snd (SendContactNotification wd (emailSender h) (Name form) (Email form)
             (Subject form) (Message form) (tr0 @ cors h))) (ServeHTTP wd h r tr0) \<and>
         (fst (SendContactNotification wd (emailSender h) (Name form) (Email form)
             (Subject form) (Message form) (tr0 @ cors h)) = None \<longrightarrow>
          response_status (events_since tr0 (ServeHTTP wd h r tr0)) = Some 200 \<and>
          response_body (events_since tr0 (ServeHTTP wd h r tr0)) = [JSONObject success_json])"
proof -
  from ServeHTTP_valid [OF assms, of h tr0] obtain a1 es1 r1 where
    N: "SendContactNotification wd (emailSender h) (Name form) (Email form) (Subject form)
        (Message form) (tr0 @ cors h) = (r1, tr0 @ cors h @ Dial a1 # es1)"
    and es1: "list_all session_event es1"
    and rest: "(case r1 of
         Some err \<Rightarrow>
           ServeHTTP wd h r tr0 =
             tr0 @ cors h @ Dial a1 # es1 @
               [LogPrintf (''Failed to send email to recipient: '' @ err),
                HttpError ''Failed to send email'' 500]
       | None \<Rightarrow>
           (\<exists>a2 es2 r2.
              SendConfirmation wd (emailSender h) (Name form) (Email form) (Message form)
                (tr0 @ cors h @ Dial a1 # es1) =
                (r2, tr0 @ cors h @ Dial a1 # es1 @ Dial a2 # es2) \<and>
              list_all session_event es2 \<and>
              ServeHTTP wd h r tr0 =
                tr0 @ cors h @ Dial a1 # es1 @ Dial a2 # es2 @
                  (case r2 of
                     Some err \<Rightarrow>
                       [LogPrintf (''Failed to send confirmation email to customer: '' @ err)]
                   | None \<Rightarrow> []) @
                  [SetHeader ''Content-Type'' ''application/json'', WriteHeader 200,
                   EncodeJSON success_json]))"
    by (elim exE conjE)
  note s1 = response_status_smtp [OF session_events_smtp [OF es1]]
  note b1 = response_body_smtp [OF session_events_smtp [OF es1]]
  show ?thesis
  proof (cases r1)
    case (Some err)
    with rest have run: "ServeHTTP wd h r tr0 =
             (tr0 @ cors h @ Dial a1 # es1) @
               [LogPrintf (''Failed to send email to recipient: '' @ err),
                HttpError ''Failed to send email'' 500]"
      by simp
    show ?thesis
      unfolding N run using Some by simp
  next
    case None
    with rest obtain a2 es2 r2 where es2: "list_all session_event es2"
      and run0: "ServeHTTP wd h r tr0 =
                tr0 @ cors h @ Dial a1 # es1 @ Dial a2 # es2 @
                  (case r2 of
                     Some err \<Rightarrow>
                       [LogPrintf (''Failed to send confirmation email to customer: '' @ err)]
                   | None \<Rightarrow> []) @
                  [SetHeader ''Content-Type'' ''application/json'', WriteHeader 200,
                   EncodeJSON success_json]"
      by auto
    note s2 = response_status_smtp [OF session_events_smtp [OF es2]]
    note b2 = response_body_smtp [OF session_events_smtp [OF es2]]
    have p: "prefix (tr0 @ cors h @ Dial a1 # es1) (ServeHTTP wd h r tr0)"
      unfolding run0 by (simp add: prefix_def)
    have st: "response_status (events_since tr0 (ServeHTTP wd h r tr0)) = Some 200"
      unfolding run0 events_since_append
      by (cases r2) (simp_all add: response_status_append s1 s2)
    have bd: "response_body (events_since tr0 (ServeHTTP wd h r tr0)) = [JSONObject success_json]"
      unfolding run0 events_since_append
      by (cases r2) (simp_all add: response_body_append b1 b2)
    from p st bd show ?thesis
      unfolding N by simp
  qed
qed

lemma sublist_wire_body:
  assumes "sublist x body"
  shows "sublist x (wire_message s to subject body)"
proof -
  from assms obtain ps ss where "body = ps @ x @ ss"
    unfolding sublist_def by (elim exE)
  then have "wire_message s to subject body =
      (''From: '' @ FromEmail (config s) @ [cr, nl] @
       ''To: '' @ to @ [cr, nl] @
       ''Subject: '' @ subject @ [cr, nl] @
       ''MIME-Version: 1.0'' @ [cr, nl] @
       ''Content-Type: text/html; charset=UTF-8'' @ [cr, nl] @
       [cr, nl] @ ps) @ x @ (ss @ [cr, nl])"
    by simp
  then show ?thesis
    unfolding sublist_def by (intro exI)
qed

text \<open>
  Claim C5. For a valid submission the notification is the message that
  \<open>SendContactNotification\<close> hands to \<open>Send\<close>: its recipient is the configured
  \<open>RecipientEmail\<close> (whatever the submitted address), its subject is
  "New Contact Form Submission: " followed by the submitted subject, and its HTML body
  contains the name, the email, the subject and the message in which every newline is
  replaced by \<open><br>\<close>. The handler performs it first. No session names another
  recipient or writes other bytes, and when the notification succeeds the server has
  received exactly this recipient and this message, and the response is 200 with the
  success object.
\<close>

theorem notification_content:
  assumes "Method r = ''POST''"
    and "parse_ContactForm wd r = Inr form"
    and "Name form \<noteq> []" and "Email form \<noteq> []" and "Message form \<noteq> []"
  shows "\<exists>body r1 tr2.
      SendContactNotification wd (emailSender h) (Name form) (Email form) (Subject form)
        (Message form) (tr0 @ cors h) = (r1, tr2) \<and>
      Send wd (emailSender h) (RecipientEmail (config (emailSender h)))
        (''New Contact Form Submission: '' @ Subject form) body (tr0 @ cors h) = (r1, tr2) \<and>
      prefix tr2 (ServeHTTP wd h r tr0) \<and>
      sublist (Name form) body \<and> sublist (Email form) body \<and> sublist (Subject form) body \<and>
      sublist (ReplaceAll (Message form) nl ''<br>'') body \<and>
      ReplaceAll (Message form) nl ''<br>'' =
        concat (map (\<lambda>c. if c = nl then ''<br>'' else [c]) (Message form)) \<and>
      prefix (envelope_recipients (events_since (tr0 @ cors h) tr2))
        [RecipientEmail (config (emailSender h))] \<and>
      prefix (message_bytes (events_since (tr0 @ cors h) tr2))
        [wire_message (emailSender h) (RecipientEmail (config (emailSender h)))
           (''New Contact Form Submission: '' @ Subject form) body] \<and>
      (r1 = None \<longrightarrow>
         envelope_recipients (events_since (tr0 @ cors h) tr2) =
           [RecipientEmail (config (emailSender h))] \<and>
         message_bytes (events_since (tr0 @ cors h) tr2) =
           [wire_message (emailSender h) (RecipientEmail (config (emailSender h)))
              (''New Contact Form Submission: '' @ Subject form) body] \<and>
         response_status (events_since tr0 (ServeHTTP wd h r tr0)) = Some 200 \<and>
         response_body (events_since tr0 (ServeHTTP wd h r tr0)) = [JSONObject success_json])"
proof -
  let ?s = "emailSender h"
  let ?to = "RecipientEmail (config ?s)"
  let ?subj = "''New Contact Form Submission: '' @ Subject form"
  let ?body = "[nl, tab, tab] @ ''<html>'' @
            [nl, tab, tab] @ ''<body>'' @
            [nl, tab, tab, tab] @ ''<h2>New Contact Form Submission</h2>'' @
            [nl, tab, tab, tab] @ ''<p><strong>Name:</strong> '' @ Name form @ ''</p>'' @
            [nl, tab, tab, tab] @ ''<p><strong>Email:</strong> '' @ Email form @ ''</p>'' @
            [nl, tab, tab, tab] @ ''<p><strong>Subject:</strong> '' @ Subject form @ ''</p>'' @
            [nl, tab, tab, tab] @ ''<p><strong>Message:</strong></p>'' @
            [nl, tab, tab, tab] @ ''<p>'' @ ReplaceAll (Message form) nl ''<br>'' @ ''</p>'' @
            [nl, tab, tab] @ ''</body>'' @
            [nl, tab, tab] @ ''</html>'' @
            [nl, tab]"
  let ?N = "SendContactNotification wd ?s (Name form) (Email form) (Subject form)
        (Message form) (tr0 @ cors h)"
  have N: "?N = Send wd ?s ?to ?subj ?body (tr0 @ cors h)"
    unfolding SendContactNotification_def Let_def by (rule refl)
  have c1: "?N = (fst ?N, snd ?N)" by simp
  have c2: "Send wd ?s ?to ?subj ?body (tr0 @ cors h) = (fst ?N, snd ?N)"
    unfolding N by simp
  note first = ServeHTTP_notification_first [OF assms, of h tr0]
  have c3: "prefix (snd ?N) (ServeHTTP wd h r tr0)"
    by (rule conjunct1 [OF first])
  have ok: "fst ?N = None \<longrightarrow>
          response_status (events_since tr0 (ServeHTTP wd h r tr0)) = Some 200 \<and>
          response_body (events_since tr0 (ServeHTTP wd h r tr0)) = [JSONObject success_json]"
    by (rule conjunct2 [OF first])
  have s1: "sublist (Name form) ?body"
    by (rule sublist_append_rightI | rule sublist_skip)+
  have s2: "sublist (Email form) ?body"
    by (rule sublist_append_rightI | rule sublist_skip)+
  have s3: "sublist (Subject form) ?body"
    by (rule sublist_append_rightI | rule sublist_skip)+
  have s4: "sublist (ReplaceAll (Message form) nl ''<br>'') ?body"
    by (rule sublist_append_rightI | rule sublist_skip)+
  have s5: "ReplaceAll (Message form) nl ''<br>'' =
        concat (map (\<lambda>c. if c = nl then ''<br>'' else [c]) (Message form))"
    by (rule ReplaceAll_concat)
  note wp = Send_wire_prefix [of "tr0 @ cors h" wd ?s ?to ?subj ?body]
  have w1: "prefix (envelope_recipients (events_since (tr0 @ cors h) (snd ?N))) [?to]"
    unfolding N by (rule conjunct1 [OF conjunct2 [OF wp]])
  have w2: "prefix (message_bytes (events_since (tr0 @ cors h) (snd ?N)))
        [wire_message ?s ?to ?subj ?body]"
    unfolding N by (rule conjunct2 [OF conjunct2 [OF wp]])
  have w3: "fst ?N = None \<longrightarrow>
         envelope_recipients (events_since (tr0 @ cors h) (snd ?N)) = [?to] \<and>
         message_bytes (events_since (tr0 @ cors h) (snd ?N)) =
           [wire_message ?s ?to ?subj ?body] \<and>
         response_status (events_since tr0 (ServeHTTP wd h r tr0)) = Some 200 \<and>
         response_body (events_since tr0 (ServeHTTP wd h r tr0)) = [JSONObject success_json]"
  proof
    assume n: "fst ?N = None"
    then have "fst (Send wd ?s ?to ?subj ?body (tr0 @ cors h)) = None"
      unfolding N .
    note ws = Send_wire_success [OF this]
    have rc: "envelope_recipients (events_since (tr0 @ cors h) (snd ?N)) = [?to]"
      unfolding N by (rule conjunct1 [OF conjunct2 [OF ws]])
    have mb: "message_bytes (events_since (tr0 @ cors h) (snd ?N)) =
           [wire_message ?s ?to ?subj ?body]"
      unfolding N by (rule conjunct2 [OF conjunct2 [OF ws]])
    from ok n have st: "response_status (events_since tr0 (ServeHTTP wd h r tr0)) = Some 200 \<and>
         response_body (events_since tr0 (ServeHTTP wd h r tr0)) = [JSONObject success_json]"
      by (rule mp)
    show "envelope_recipients (events_since (tr0 @ cors h) (snd ?N)) = [?to] \<and>
         message_bytes (events_since (tr0 @ cors h) (snd ?N)) =
           [wire_message ?s ?to ?subj ?body] \<and>
         response_status (events_since tr0 (ServeHTTP wd h r tr0)) = Some 200 \<and>
         response_body (events_since tr0 (ServeHTTP wd h r tr0)) = [JSONObject success_json]"
      by (rule conjI [OF rc conjI [OF mb st]])
  qed
  show ?thesis
    apply (rule exI [of _ ?body])
    apply (rule exI [of _ "fst ?N"])
    apply (rule exI [of _ "snd ?N"])
    apply (intro conjI)
              apply (rule c1)
             apply (rule c2)
            apply (rule c3)
           apply (rule s1)
          apply (rule s2)
         apply (rule s3)
        apply (rule s4)
       apply (rule s5)
      apply (rule w1)
     apply (rule w2)
    apply (rule w3)
    done
qed

theorem notification_content_witness:
  "envelope_recipients (events_since (cors example_handler)
      (snd (SendContactNotification (example_world accepting) (emailSender example_handler)
         ''Ada'' ''ada@example.com'' ''Hi'' (''Hello'' @ [nl] @ ''World'')
         (cors example_handler)))) = [''owner@example.com''] \<and>
   (\<exists>m. message_bytes (events_since (cors example_handler)
      (snd (SendContactNotification (example_world accepting) (emailSender example_handler)
         ''Ada'' ''ada@example.com'' ''Hi'' (''Hello'' @ [nl] @ ''World'')
         (cors example_handler)))) = [m] \<and>
      sublist ''Hello<br>World'' m) \<and>
   response_status (events_since []
      (ServeHTTP (example_world accepting) example_handler (post_json ada_json_newline) [])) =
     Some 200 \<and>
   response_body (events_since []
      (ServeHTTP (example_world accepting) example_handler (post_json ada_json_newline) [])) =
     [JSONObject success_json]"
proof -
  let ?wd = "example_world accepting"
  let ?h = example_handler
  let ?f = "ada_submission (''Hello'' @ [nl] @ ''World'')"
  let ?N = "SendContactNotification ?wd (emailSender ?h) (Name ?f)
     (Email ?f) (Subject ?f) (Message ?f) ([] @ cors ?h)"
  have m: "Method (post_json ada_json_newline) = ''POST''"
    by (simp add: post_json_def)
  have p: "parse_ContactForm ?wd (post_json ada_json_newline) = Inr ?f"
    by (simp add: example_defs parse_ContactForm_def sublist_code)
  have ne: "Name ?f \<noteq> []" "Email ?f \<noteq> []" "Message ?f \<noteq> []"
    by (simp_all add: ada_submission_def)
  have n: "fst ?N = None"
    by code_simp
  have f: "Name ?f = ''Ada''" "Email ?f = ''ada@example.com''" "Subject ?f = ''Hi''"
    "Message ?f = ''Hello'' @ [nl] @ ''World''"
    by (simp_all add: ada_submission_def)
  have to: "RecipientEmail (config (emailSender ?h)) = ''owner@example.com''"
    by (simp add: example_defs)
  have br: "ReplaceAll (Message ?f) nl ''<br>'' = ''Hello<br>World''"
    by (simp add: ada_submission_def)
  from notification_content [OF m p ne, of ?h "[]"] obtain body r1 tr2 where
    N: "?N = (r1, tr2)"
    and sub: "sublist (ReplaceAll (Message ?f) nl ''<br>'') body"
    and ok: "r1 = None \<longrightarrow>
         envelope_recipients (events_since ([] @ cors ?h) tr2) =
           [RecipientEmail (config (emailSender ?h))] \<and>
         message_bytes (events_since ([] @ cors ?h) tr2) =
           [wire_message (emailSender ?h) (RecipientEmail (config (emailSender ?h)))
              (''New Contact Form Submission: '' @ Subject ?f) body] \<and>
         response_status (events_since [] (ServeHTTP ?wd ?h (post_json ada_json_newline) [])) =
           Some 200 \<and>
         response_body (events_since [] (ServeHTTP ?wd ?h (post_json ada_json_newline) [])) =
           [JSONObject success_json]"
    by (elim exE conjE)
  from N n have r1: "r1 = None" and tr2: "tr2 = snd ?N"
    by simp_all
  from ok r1 have
    rc: "envelope_recipients (events_since ([] @ cors ?h) tr2) =
           [RecipientEmail (config (emailSender ?h))]"
    and mb: "message_bytes (events_since ([] @ cors ?h) tr2) =
           [wire_message (emailSender ?h) (RecipientEmail (config (emailSender ?h)))
              (''New Contact Form Submission: '' @ Subject ?f) body]"
    and st: "response_status (events_since []
        (ServeHTTP ?wd ?h (post_json ada_json_newline) [])) = Some 200"
    and bd: "response_body (events_since []
        (ServeHTTP ?wd ?h (post_json ada_json_newline) [])) = [JSONObject success_json]"
    by simp_all
  have w: "sublist ''Hello<br>World''
      (wire_message (emailSender ?h) (RecipientEmail (config (emailSender ?h)))
              (''New Contact Form Submission: '' @ Subject ?f) body)"
    using sub unfolding br by (rule sublist_wire_body)
  have goal1: "envelope_recipients (events_since (cors ?h)
      (snd (SendContactNotification ?wd (emailSender ?h)
         ''Ada'' ''ada@example.com'' ''Hi'' (''Hello'' @ [nl] @ ''World'')
         (cors ?h)))) = [''owner@example.com'']"
    using rc unfolding tr2 f to by simp
  have goal2: "\<exists>m. message_bytes (events_since (cors ?h)
      (snd (SendContactNotification ?wd (emailSender ?h)
         ''Ada'' ''ada@example.com'' ''Hi'' (''Hello'' @ [nl] @ ''World'')
         (cors ?h)))) = [m] \<and> sublist ''Hello<br>World'' m"
    using mb w unfolding tr2 f by (intro exI conjI) simp_all
  from goal1 goal2 st bd show ?thesis
    by (intro conjI)
qed

subsection \<open>The two encodings\<close>



subsection \<open>The two versions of the sender\<close>

lemma Send_part_001_wire:
  "envelope_senders (events_since tr (snd (Send_part_001 wd s to subject body tr))) =
     [FromEmail (config s)] \<and>
   envelope_recipients (events_since tr (snd (Send_part_001 wd s to subject body tr))) = [to] \<and>
   message_bytes (events_since tr (snd (Send_part_001 wd s to subject body tr))) =
     [wire_message s to subject body]"
  by (simp add: Send_part_001_def Let_def smtp_call_def)

text \<open>
  Claim C9. For every destination, subject and body under one configuration, the
  version that calls \<open>smtp.SendMail\<close> hands over the envelope sender
  \<open>FromEmail\<close>, the single recipient \<open>to\<close> and the message made of the
  \<open>From\<close>, \<open>To\<close>, \<open>Subject\<close>, \<open>MIME-Version\<close> and \<open>Content-Type\<close>
  headers, a blank line, the body and a closing CRLF. The version that drives the
  session itself never gives the server another sender, recipient or message, and
  gives exactly these when it succeeds. The builders of the notification and of the
  confirmation pass the same recipient, subject and HTML body to \<open>Send\<close> in both
  versions.
\<close>

theorem two_senders_compose_alike:
  "envelope_senders (events_since tr (snd (Send_part_001 wd s to subject body tr))) =
     [FromEmail (config s)] \<and>
   envelope_recipients (events_since tr (snd (Send_part_001 wd s to subject body tr))) = [to] \<and>
   message_bytes (events_since tr (snd (Send_part_001 wd s to subject body tr))) =
     [''From: '' @ FromEmail (config s) @ [cr, nl] @
      ''To: '' @ to @ [cr, nl] @
      ''Subject: '' @ subject @ [cr, nl] @
      ''MIME-Version: 1.0'' @ [cr, nl] @
      ''Content-Type: text/html; charset=UTF-8'' @ [cr, nl] @
      [cr, nl] @
      body @ [cr, nl]] \<and>
   prefix (envelope_senders (events_since tr (snd (Send wd s to subject body tr))))
     (envelope_senders (events_since tr (snd (Send_part_001 wd s to subject body tr)))) \<and>
   prefix (envelope_recipients (events_since tr (snd (Send wd s to subject body tr))))
     (envelope_recipients (events_since tr (snd (Send_part_001 wd s to subject body tr)))) \<and>
   prefix (message_bytes (events_since tr (snd (Send wd s to subject body tr))))
     (message_bytes (events_since tr (snd (Send_part_001 wd s to subject body tr)))) \<and>
   (fst (Send wd s to subject body tr) = None \<longrightarrow>
      envelope_senders (events_since tr (snd (Send wd s to subject body tr))) =
        envelope_senders (events_since tr (snd (Send_part_001 wd s to subject body tr))) \<and>
      envelope_recipients (events_since tr (snd (Send wd s to subject body tr))) =
        envelope_recipients (events_since tr (snd (Send_part_001 wd s to subject body tr))) \<and>
      message_bytes (events_since tr (snd (Send wd s to subject body tr))) =
        message_bytes (events_since tr (snd (Send_part_001 wd s to subject body tr)))) \<and>
   (\<exists>html. \<forall>w.
      SendContactNotification w s name email subject message =
        Send w s (RecipientEmail (config s)) (''New Contact Form Submission: '' @ subject) html \<and>
      SendContactNotification_part_001 w s name email subject message =
        Send_part_001 w s (RecipientEmail (config s))
          (''New Contact Form Submission: '' @ subject) html) \<and>
   (\<exists>html. \<forall>w.
      SendConfirmation w s name email message =
        Send w s email ''Thank you for contacting us'' html \<and>
      SendConfirmation_part_001 w s name email message =
        Send_part_001 w s email ''Thank you for contacting us'' html)"
proof -
  note old = Send_part_001_wire [of tr wd s to subject body]
  note new = Send_wire_prefix [of tr wd s to subject body]
  have a: "envelope_senders (events_since tr (snd (Send_part_001 wd s to subject body tr))) =
     [FromEmail (config s)]"
    by (rule conjunct1 [OF old])
  have b: "envelope_recipients (events_since tr (snd (Send_part_001 wd s to subject body tr))) =
     [to]"
    by (rule conjunct1 [OF conjunct2 [OF old]])
  have c: "message_bytes (events_since tr (snd (Send_part_001 wd s to subject body tr))) =
     [wire_message s to subject body]"
    by (rule conjunct2 [OF conjunct2 [OF old]])
  have d: "prefix (envelope_senders (events_since tr (snd (Send wd s to subject body tr))))
     (envelope_senders (events_since tr (snd (Send_part_001 wd s to subject body tr))))"
    unfolding a by (rule conjunct1 [OF new])
  have e: "prefix (envelope_recipients (events_since tr (snd (Send wd s to subject body tr))))
     (envelope_recipients (events_since tr (snd (Send_part_001 wd s to subject body tr))))"
    unfolding b by (rule conjunct1 [OF conjunct2 [OF new]])
  have f: "prefix (message_bytes (events_since tr (snd (Send wd s to subject body tr))))
     (message_bytes (events_since tr (snd (Send_part_001 wd s to subject body tr))))"
    unfolding c by (rule conjunct2 [OF conjunct2 [OF new]])
  have g: "fst (Send wd s to subject body tr) = None \<longrightarrow>
      envelope_senders (events_since tr (snd (Send wd s to subject body tr))) =
        envelope_senders (events_since tr (snd (Send_part_001 wd s to subject body tr))) \<and>
      envelope_recipients (events_since tr (snd (Send wd s to subject body tr))) =
        envelope_recipients (events_since tr (snd (Send_part_001 wd s to subject body tr))) \<and>
      message_bytes (events_since tr (snd (Send wd s to subject body tr))) =
        message_bytes (events_since tr (snd (Send_part_001 wd s to subject body tr)))"
    unfolding a b c by (rule impI) (rule Send_wire_success)
  have n: "\<exists>html. \<forall>w.
      SendContactNotification w s name email subject message =
        Send w s (RecipientEmail (config s)) (''New Contact Form Submission: '' @ subject) html \<and>
      SendContactNotification_part_001 w s name email subject message =
        Send_part_001 w s (RecipientEmail (config s))
          (''New Contact Form Submission: '' @ subject) html"
    unfolding SendContactNotification_def SendContactNotification_part_001_def Let_def
    by (intro exI allI conjI) (rule refl)+
  have k: "\<exists>html. \<forall>w.
      SendConfirmation w s name email message =
        Send w s email ''Thank you for contacting us'' html \<and>
      SendConfirmation_part_001 w s name email message =
        Send_part_001 w s email ''Thank you for contacting us'' html"
    unfolding SendConfirmation_def SendConfirmation_part_001_def Let_def
    by (intro exI allI conjI) (rule refl)+
  show ?thesis
    apply (intro conjI)
            apply (rule a)
           apply (rule b)
          apply (rule c)
         apply (rule d)
        apply (rule e)
       apply (rule f)
      apply (rule g)
     apply (rule n)
    apply (rule k)
    done
qed

theorem two_senders_compose_alike_witness:
  "envelope_senders (events_since []
      (snd (Send (example_world accepting) (NewSender example_config)
              ''ada@example.com'' ''Hi'' ''<p>Hello</p>'' []))) =
   envelope_senders (events_since []
      (snd (Send_part_001 (example_world accepting) (NewSender example_config)
              ''ada@example.com'' ''Hi'' ''<p>Hello</p>'' []))) \<and>
   envelope_recipients (events_since []
      (snd (Send (example_world accepting) (NewSender example_config)
              ''ada@example.com'' ''Hi'' ''<p>Hello</p>'' []))) =
   envelope_recipients (events_since []
      (snd (Send_part_001 (example_world accepting) (NewSender example_config)
              ''ada@example.com'' ''Hi'' ''<p>Hello</p>'' []))) \<and>
   message_bytes (events_since []
      (snd (Send (example_world accepting) (NewSender example_config)
              ''ada@example.com'' ''Hi'' ''<p>Hello</p>'' []))) =
   message_bytes (events_since []
      (snd (Send_part_001 (example_world accepting) (NewSender example_config)
              ''ada@example.com'' ''Hi'' ''<p>Hello</p>'' [])))"
proof -
  have ok: "fst (Send (example_world accepting) (NewSender example_config)
              ''ada@example.com'' ''Hi'' ''<p>Hello</p>'' []) = None"
    by code_simp
  note all = two_senders_compose_alike
    [where tr = "[]" and wd = "example_world accepting" and s = "NewSender example_config"
       and to = "''ada@example.com''" and subject = "''Hi''" and body = "''<p>Hello</p>''"]
  note imp = all [THEN conjunct2, THEN conjunct2, THEN conjunct2, THEN conjunct2,
    THEN conjunct2, THEN conjunct2, THEN conjunct1]
  from imp ok show ?thesis
    by (rule mp)
qed

subsection \<open>Startup\<close>

text \<open>
  Claim C10. \<open>main\<close> dies in its validation exactly when \<open>SMTP_USER\<close>,
  \<open>SMTP_PASSWORD\<close> or \<open>RECIPIENT_EMAIL\<close> is empty or unset. \<open>FROM_EMAIL\<close> is
  not looked at: with the three set and \<open>FROM_EMAIL\<close> empty or unset the process
  serves, and every message its sender composes has an empty \<open>From\<close> header and the
  empty envelope sender.
\<close>

theorem startup_validation:
  "(env ''SMTP_USER'' = [] \<or> env ''SMTP_PASSWORD'' = [] \<or> env ''RECIPIENT_EMAIL'' = [] \<longrightarrow>
      main env listen = Fatal ''SMTP_USER, SMTP_PASSWORD, and RECIPIENT_EMAIL must be set'') \<and>
   ((\<exists>msg. main env (\<lambda>addr. None) = Fatal msg) \<longleftrightarrow>
      env ''SMTP_USER'' = [] \<or> env ''SMTP_PASSWORD'' = [] \<or> env ''RECIPIENT_EMAIL'' = []) \<and>
   (env ''SMTP_USER'' \<noteq> [] \<and> env ''SMTP_PASSWORD'' \<noteq> [] \<and> env ''RECIPIENT_EMAIL'' \<noteq> [] \<and>
    env ''FROM_EMAIL'' = [] \<longrightarrow>
      (\<exists>addr h. main env (\<lambda>addr. None) = Serving addr h \<and>
         FromEmail (config (emailSender h)) = [] \<and>
         (\<forall>wd to subject body tr.
            prefix (envelope_senders
                (events_since tr (snd (Send wd (emailSender h) to subject body tr)))) [[]] \<and>
            prefix (message_bytes
                (events_since tr (snd (Send wd (emailSender h) to subject body tr))))
              [''From: '' @ [cr, nl] @
               ''To: '' @ to @ [cr, nl] @
               ''Subject: '' @ subject @ [cr, nl] @
               ''MIME-Version: 1.0'' @ [cr, nl] @
               ''Content-Type: text/html; charset=UTF-8'' @ [cr, nl] @
               [cr, nl] @
               body @ [cr, nl]] \<and>
            (fst (Send wd (emailSender h) to subject body tr) = None \<longrightarrow>
               envelope_senders
                 (events_since tr (snd (Send wd (emailSender h) to subject body tr))) = [[]] \<and>
               message_bytes
                 (events_since tr (snd (Send wd (emailSender h) to subject body tr))) =
                 [''From: '' @ [cr, nl] @
                  ''To: '' @ to @ [cr, nl] @
                  ''Subject: '' @ subject @ [cr, nl] @
                  ''MIME-Version: 1.0'' @ [cr, nl] @
                  ''Content-Type: text/html; charset=UTF-8'' @ [cr, nl] @
                  [cr, nl] @
                  body @ [cr, nl]]))))"
proof (intro conjI)
  have user: "SMTPUser (Load env) = [] \<longleftrightarrow> env ''SMTP_USER'' = []"
    and pass: "SMTPPassword (Load env) = [] \<longleftrightarrow> env ''SMTP_PASSWORD'' = []"
    and rcpt: "RecipientEmail (Load env) = [] \<longleftrightarrow> env ''RECIPIENT_EMAIL'' = []"
    by (simp_all add: Load_def getEnv_def Let_def)
  show "env ''SMTP_USER'' = [] \<or> env ''SMTP_PASSWORD'' = [] \<or> env ''RECIPIENT_EMAIL'' = [] \<longrightarrow>
      main env listen = Fatal ''SMTP_USER, SMTP_PASSWORD, and RECIPIENT_EMAIL must be set''"
    unfolding main_def Let_def user pass rcpt by simp
  show "(\<exists>msg. main env (\<lambda>addr. None) = Fatal msg) \<longleftrightarrow>
      env ''SMTP_USER'' = [] \<or> env ''SMTP_PASSWORD'' = [] \<or> env ''RECIPIENT_EMAIL'' = []"
    unfolding main_def Let_def user pass rcpt by simp
  show "env ''SMTP_USER'' \<noteq> [] \<and> env ''SMTP_PASSWORD'' \<noteq> [] \<and> env ''RECIPIENT_EMAIL'' \<noteq> [] \<and>
    env ''FROM_EMAIL'' = [] \<longrightarrow>
      (\<exists>addr h. main env (\<lambda>addr. None) = Serving addr h \<and>
         FromEmail (config (emailSender h)) = [] \<and>
         (\<forall>wd to subject body tr.
            prefix (envelope_senders
                (events_since tr (snd (Send wd (emailSender h) to subject body tr)))) [[]] \<and>
            prefix (message_bytes
                (events_since tr (snd (Send wd (emailSender h) to subject body tr))))
              [''From: '' @ [cr, nl] @
               ''To: '' @ to @ [cr, nl] @
               ''Subject: '' @ subject @ [cr, nl] @
               ''MIME-Version: 1.0'' @ [cr, nl] @
               ''Content-Type: text/html; charset=UTF-8'' @ [cr, nl] @
               [cr, nl] @
               body @ [cr, nl]] \<and>
            (fst (Send wd (emailSender h) to subject body tr) = None \<longrightarrow>
               envelope_senders
                 (events_since tr (snd (Send wd (emailSender h) to subject body tr))) = [[]] \<and>
               message_bytes
                 (events_since tr (snd (Send wd (emailSender h) to subject body tr))) =
                 [''From: '' @ [cr, nl] @
                  ''To: '' @ to @ [cr, nl] @
                  ''Subject: '' @ subject @ [cr, nl] @
                  ''MIME-Version: 1.0'' @ [cr, nl] @
                  ''Content-Type: text/html; charset=UTF-8'' @ [cr, nl] @
                  [cr, nl] @
                  body @ [cr, nl]])))"
  proof
    assume a: "env ''SMTP_USER'' \<noteq> [] \<and> env ''SMTP_PASSWORD'' \<noteq> [] \<and>
      env ''RECIPIENT_EMAIL'' \<noteq> [] \<and> env ''FROM_EMAIL'' = []"
    let ?h = "NewContactHandler (NewSender (Load env)) (CORSOrigin (Load env))"
    let ?s = "emailSender ?h"
    have run: "main env (\<lambda>addr. None) = Serving ('':'' @ ServerPort (Load env)) ?h"
      using a unfolding main_def Let_def user pass rcpt by simp
    have empty_from: "FromEmail (config ?s) = []"
      using a by (simp add: NewContactHandler_def NewSender_def Load_def getEnv_def)
    have wire: "prefix (envelope_senders
                (events_since tr (snd (Send wd ?s to subject body tr)))) [[]] \<and>
            prefix (message_bytes
                (events_since tr (snd (Send wd ?s to subject body tr))))
              [''From: '' @ [cr, nl] @
               ''To: '' @ to @ [cr, nl] @
               ''Subject: '' @ subject @ [cr, nl] @
               ''MIME-Version: 1.0'' @ [cr, nl] @
               ''Content-Type: text/html; charset=UTF-8'' @ [cr, nl] @
               [cr, nl] @
               body @ [cr, nl]] \<and>
            (fst (Send wd ?s to subject body tr) = None \<longrightarrow>
               envelope_senders
                 (events_since tr (snd (Send wd ?s to subject body tr))) = [[]] \<and>
               message_bytes
                 (events_since tr (snd (Send wd ?s to subject body tr))) =
                 [''From: '' @ [cr, nl] @
                  ''To: '' @ to @ [cr, nl] @
                  ''Subject: '' @ subject @ [cr, nl] @
                  ''MIME-Version: 1.0'' @ [cr, nl] @
                  ''Content-Type: text/html; charset=UTF-8'' @ [cr, nl] @
                  [cr, nl] @
                  body @ [cr, nl]])" for wd to subject body tr
    proof -
      note p = Send_wire_prefix [of tr wd ?s to subject body, unfolded empty_from]
      have p1: "prefix (envelope_senders
                (events_since tr (snd (Send wd ?s to subject body tr)))) [[]]"
        by (rule conjunct1 [OF p])
      have p2: "prefix (message_bytes
                (events_since tr (snd (Send wd ?s to subject body tr))))
              [''From: '' @ [cr, nl] @
               ''To: '' @ to @ [cr, nl] @
               ''Subject: '' @ subject @ [cr, nl] @
               ''MIME-Version: 1.0'' @ [cr, nl] @
               ''Content-Type: text/html; charset=UTF-8'' @ [cr, nl] @
               [cr, nl] @
               body @ [cr, nl]]"
        using conjunct2 [OF conjunct2 [OF p]] by simp
      have p3: "envelope_senders
                 (events_since tr (snd (Send wd ?s to subject body tr))) = [[]] \<and>
               message_bytes
                 (events_since tr (snd (Send wd ?s to subject body tr))) =
                 [''From: '' @ [cr, nl] @
                  ''To: '' @ to @ [cr, nl] @
                  ''Subject: '' @ subject @ [cr, nl] @
                  ''MIME-Version: 1.0'' @ [cr, nl] @
                  ''Content-Type: text/html; charset=UTF-8'' @ [cr, nl] @
                  [cr, nl] @
                  body @ [cr, nl]]"
        if ok: "fst (Send wd ?s to subject body tr) = None"
      proof -
        note q = Send_wire_success [OF ok, unfolded empty_from]
        show ?thesis
          using conjunct1 [OF q] conjunct2 [OF conjunct2 [OF q]] by simp
      qed
      show ?thesis
        by (rule conjI [OF p1 conjI [OF p2 impI [OF p3]]])
    qed
    show "\<exists>addr h. main env (\<lambda>addr. None) = Serving addr h \<and>
         FromEmail (config (emailSender h)) = [] \<and>
         (\<forall>wd to subject body tr.
            prefix (envelope_senders
                (events_since tr (snd (Send wd (emailSender h) to subject body tr)))) [[]] \<and>
            prefix (message_bytes
                (events_since tr (snd (Send wd (emailSender h) to subject body tr))))
              [''From: '' @ [cr, nl] @
               ''To: '' @ to @ [cr, nl] @
               ''Subject: '' @ subject @ [cr, nl] @
               ''MIME-Version: 1.0'' @ [cr, nl] @
               ''Content-Type: text/html; charset=UTF-8'' @ [cr, nl] @
               [cr, nl] @
               body @ [cr, nl]] \<and>
            (fst (Send wd (emailSender h) to subject body tr) = None \<longrightarrow>
               envelope_senders
                 (events_since tr (snd (Send wd (emailSender h) to subject body tr))) = [[]] \<and>
               message_bytes
                 (events_since tr (snd (Send wd (emailSender h) to subject body tr))) =
                 [''From: '' @ [cr, nl] @
                  ''To: '' @ to @ [cr, nl] @
                  ''Subject: '' @ subject @ [cr, nl] @
                  ''MIME-Version: 1.0'' @ [cr, nl] @
                  ''Content-Type: text/html; charset=UTF-8'' @ [cr, nl] @
                  [cr, nl] @
                  body @ [cr, nl]]))"
      apply (rule exI [of _ "'':'' @ ServerPort (Load env)"])
      apply (rule exI [of _ ?h])
      apply (rule conjI [OF run])
      apply (rule conjI [OF empty_from])
      apply (intro allI)
      apply (rule wire)
      done
  qed
qed

theorem startup_validation_witness:
  "main (\<lambda>key. []) (\<lambda>addr. None) =
     Fatal ''SMTP_USER, SMTP_PASSWORD, and RECIPIENT_EMAIL must be set'' \<and>
   (\<exists>addr h. main env_without_from (\<lambda>addr. None) = Serving addr h \<and>
      FromEmail (config (emailSender h)) = [] \<and>
      envelope_senders (events_since []
        (snd (Send (example_world accepting) (emailSender h)
                ''ada@example.com'' ''Hi'' ''<p>Hello</p>'' []))) = [[]])"
proof -
  let ?wd = "example_world accepting"
  let ?h = "NewContactHandler (NewSender (Load env_without_from))
      (CORSOrigin (Load env_without_from))"
  have unset: "(\<lambda>key. []) ''SMTP_USER'' = [] \<or> (\<lambda>key. []) ''SMTP_PASSWORD'' = [] \<or>
      (\<lambda>key. []) ''RECIPIENT_EMAIL'' = ([] :: string)"
    by simp
  from startup_validation [of "\<lambda>key. []" "\<lambda>addr. None", THEN conjunct1] unset
  have fatal: "main (\<lambda>key. []) (\<lambda>addr. None) =
     Fatal ''SMTP_USER, SMTP_PASSWORD, and RECIPIENT_EMAIL must be set''"
    by (rule mp)
  have set: "env_without_from ''SMTP_USER'' \<noteq> [] \<and> env_without_from ''SMTP_PASSWORD'' \<noteq> [] \<and>
      env_without_from ''RECIPIENT_EMAIL'' \<noteq> [] \<and> env_without_from ''FROM_EMAIL'' = []"
    by (simp add: env_without_from_def)
  note ex = mp [OF startup_validation
    [of env_without_from "\<lambda>addr. None", THEN conjunct2, THEN conjunct2] set]
  from ex obtain addr h where X: "main env_without_from (\<lambda>addr. None) = Serving addr h \<and>
      FromEmail (config (emailSender h)) = [] \<and>
      (\<forall>wd to subject body tr.
            prefix (envelope_senders
                (events_since tr (snd (Send wd (emailSender h) to subject body tr)))) [[]] \<and>
            prefix (message_bytes
                (events_since tr (snd (Send wd (emailSender h) to subject body tr))))
              [''From: '' @ [cr, nl] @
               ''To: '' @ to @ [cr, nl] @
               ''Subject: '' @ subject @ [cr, nl] @
               ''MIME-Version: 1.0'' @ [cr, nl] @
               ''Content-Type: text/html; charset=UTF-8'' @ [cr, nl] @
               [cr, nl] @
               body @ [cr, nl]] \<and>
            (fst (Send wd (emailSender h) to subject body tr) = None \<longrightarrow>
               envelope_senders
                 (events_since tr (snd (Send wd (emailSender h) to subject body tr))) = [[]] \<and>
               message_bytes
                 (events_since tr (snd (Send wd (emailSender h) to subject body tr))) =
                 [''From: '' @ [cr, nl] @
                  ''To: '' @ to @ [cr, nl] @
                  ''Subject: '' @ subject @ [cr, nl] @
                  ''MIME-Version: 1.0'' @ [cr, nl] @
                  ''Content-Type: text/html; charset=UTF-8'' @ [cr, nl] @
                  [cr, nl] @
                  body @ [cr, nl]]))"
    by (elim exE)
  note run = X [THEN conjunct1]
  note fe = X [THEN conjunct2, THEN conjunct1]
  note all = X [THEN conjunct2, THEN conjunct2]
  have ev: "main env_without_from (\<lambda>addr. None) = Serving '':8080'' ?h"
    by (simp add: main_def Let_def Load_def getEnv_def env_without_from_def)
  from run ev have h: "h = ?h"
    by simp
  have ok: "fst (Send ?wd (emailSender ?h) ''ada@example.com'' ''Hi'' ''<p>Hello</p>'' []) = None"
    by code_simp
  note inst = all [THEN spec [of _ ?wd], THEN spec [of _ "''ada@example.com''"],
      THEN spec [of _ "''Hi''"], THEN spec [of _ "''<p>Hello</p>''"], THEN spec [of _ "[]"]]
  from inst [THEN conjunct2, THEN conjunct2] ok [folded h]
  have "envelope_senders (events_since []
        (snd (Send ?wd (emailSender h) ''ada@example.com'' ''Hi'' ''<p>Hello</p>'' []))) = [[]] \<and>
      message_bytes (events_since []
        (snd (Send ?wd (emailSender h) ''ada@example.com'' ''Hi'' ''<p>Hello</p>'' []))) =
                 [''From: '' @ [cr, nl] @
                  ''To: '' @ ''ada@example.com'' @ [cr, nl] @
                  ''Subject: '' @ ''Hi'' @ [cr, nl] @
                  ''MIME-Version: 1.0'' @ [cr, nl] @
                  ''Content-Type: text/html; charset=UTF-8'' @ [cr, nl] @
                  [cr, nl] @
                  ''<p>Hello</p>'' @ [cr, nl]]"
    by (rule mp)
  then have sender: "envelope_senders (events_since []
        (snd (Send ?wd (emailSender h) ''ada@example.com'' ''Hi'' ''<p>Hello</p>'' []))) = [[]]"
    by (rule conjunct1)
  show ?thesis
    apply (rule conjI [OF fatal])
    apply (rule exI [of _ addr])
    apply (rule exI [of _ h])
    apply (rule conjI [OF run])
    apply (rule conjI [OF fe])
    apply (rule sender)
    done
qed

end
